theory Spec2Isabelle
  imports Main "HOL-Library.Word" "HOL-Library.AList"
begin

section \<open>The \<open>init\<close> command of the Sindri CLI\<close>

text \<open>
  The development embeds the action of \<open>initCommand\<close> (the \<open>init\<close> subcommand): the
  directory checks, the prompts with their validators and default values, the branch on
  the proving framework, the two scaffolding calls and the optional git initialisation.
  Everything the action reads from outside (the file system, the user's answers, the
  results of the scaffolding calls and of the git subprocesses) is a field of a record
  \<open>world\<close>; what the action does is the list of its observable calls (an event trace)
  together with the way it ends.
\<close>

subsection \<open>JavaScript strings\<close>

text \<open>
  A JavaScript string is a sequence of UTF-16 code units. The regular expressions of the
  source carry no \<open>u\<close> flag, so \<open>length\<close>, character classes and \<open>replace\<close> all work on
  single code units.
\<close>

type_synonym jschar = "16 word"

type_synonym jsstring = "jschar list"

abbreviation cu :: "char \<Rightarrow> jschar" where
  "cu \<equiv> of_char"

definition js :: "string \<Rightarrow> jsstring" where
  "js = map of_char"

subsection \<open>The regular expressions the source uses\<close>

text \<open>
  Every regular expression literal of the source is an optional \<open>^\<close>, a sequence of
  character classes, each taken once or under a greedy \<open>*\<close> or \<open>+\<close>, an optional \<open>$\<close>,
  and an optional \<open>g\<close> flag. A class is a list of inclusive ranges (a single character
  is the range from it to itself), negated when it starts with \<open>^\<close>.
\<close>

datatype char_class = CharClass (negated: bool) (ranges: "(jschar \<times> jschar) list")

datatype quantifier = Once | Star | Plus

datatype regex =
  Regex (anchor_start: bool) (atoms: "(char_class \<times> quantifier) list")
    (anchor_end: bool) (global: bool)

fun in_class :: "char_class \<Rightarrow> jschar \<Rightarrow> bool" where
  "in_class (CharClass neg rs) c = (list_ex (\<lambda>(lo, hi). lo \<le> c \<and> c \<le> hi) rs \<noteq> neg)"

text \<open>
  \<open>match_at ps eol s\<close> runs the backtracking matcher at the head of \<open>s\<close>: a greedy
  quantifier first takes one more character and gives it back only when the rest of the
  pattern then fails. The result is what is left of \<open>s\<close> behind the match, or \<open>None\<close>.
  \<open>eol\<close> says that the pattern ends with \<open>$\<close> (no \<open>m\<close> flag: the end of the input only).
\<close>

fun match_at :: "(char_class \<times> quantifier) list \<Rightarrow> bool \<Rightarrow> jsstring \<Rightarrow> jsstring option" where
  "match_at [] eol s = (if eol \<and> s \<noteq> [] then None else Some s)"
| "match_at ((C, Once) # ps) eol [] = None"
| "match_at ((C, Once) # ps) eol (c # cs) =
     (if in_class C c then match_at ps eol cs else None)"
| "match_at ((C, Star) # ps) eol [] = match_at ps eol []"
| "match_at ((C, Star) # ps) eol (c # cs) =
     (if in_class C c
      then (case match_at ((C, Star) # ps) eol cs of
              Some rest \<Rightarrow> Some rest
            | None \<Rightarrow> match_at ps eol (c # cs))
      else match_at ps eol (c # cs))"
| "match_at ((C, Plus) # ps) eol [] = None"
| "match_at ((C, Plus) # ps) eol (c # cs) =
     (if in_class C c then match_at ((C, Star) # ps) eol cs else None)"

text \<open>
  The leftmost match: the text before it and the text behind it. With \<open>^\<close> only the
  start of the input is tried.
\<close>

fun find_match :: "regex \<Rightarrow> jsstring \<Rightarrow> (jsstring \<times> jsstring) option" where
  "find_match r [] =
     (case match_at (atoms r) (anchor_end r) [] of
        Some rest \<Rightarrow> Some ([], rest)
      | None \<Rightarrow> None)"
| "find_match r (c # cs) =
     (case match_at (atoms r) (anchor_end r) (c # cs) of
        Some rest \<Rightarrow> Some ([], rest)
      | None \<Rightarrow>
          if anchor_start r then None
          else (case find_match r cs of
                  Some (before, rest) \<Rightarrow> Some (c # before, rest)
                | None \<Rightarrow> None))"

text \<open>\<open>RegExp.prototype.test\<close>.\<close>

definition regex_test :: "regex \<Rightarrow> jsstring \<Rightarrow> bool" where
  "regex_test r s = (find_match r s \<noteq> None)"

text \<open>
  \<open>String.prototype.replace\<close> with a \<open>g\<close> pattern that is not anchored: every match,
  left to right, is replaced; behind an empty match one character is copied.
\<close>

function replace_all :: "regex \<Rightarrow> jsstring \<Rightarrow> jsstring \<Rightarrow> jsstring" where
  "replace_all r rep [] =
     (case match_at (atoms r) (anchor_end r) [] of
        None \<Rightarrow> []
      | Some rest \<Rightarrow> rep)"
| "replace_all r rep (c # cs) =
     (case match_at (atoms r) (anchor_end r) (c # cs) of
        None \<Rightarrow> c # replace_all r rep cs
      | Some rest \<Rightarrow>
          if length rest \<le> length cs then rep @ replace_all r rep rest
          else rep @ c # replace_all r rep cs)"
  by pat_completeness auto
termination
  by (relation "measure (\<lambda>(r, rep, s). length s)") auto

text \<open>
  \<open>String.prototype.replace\<close> with a regular expression: all matches under \<open>g\<close>, the
  leftmost one otherwise (an anchored pattern matches at most once).
\<close>

definition regex_replace :: "regex \<Rightarrow> jsstring \<Rightarrow> jsstring \<Rightarrow> jsstring" where
  "regex_replace r rep s =
     (if global r \<and> \<not> anchor_start r then replace_all r rep s
      else (case find_match r s of
              None \<Rightarrow> s
            | Some (before, rest) \<Rightarrow> before @ rep @ rest))"

text \<open>
  \<open>String.prototype.replace\<close> with a string pattern: the first occurrence only.
\<close>

fun string_replace :: "jsstring \<Rightarrow> jsstring \<Rightarrow> jsstring \<Rightarrow> jsstring" where
  "string_replace pat rep [] = (if pat = [] then rep else [])"
| "string_replace pat rep (c # cs) =
     (if take (length pat) (c # cs) = pat then rep @ drop (length pat) (c # cs)
      else c # string_replace pat rep cs)"

text \<open>
  \<open>String.prototype.toUpperCase\<close> on ASCII text. The source applies it to the value of
  the curve choice only, one of six ASCII literals; the Unicode case mapping of other
  code units is not modelled.
\<close>

definition toUpperCase :: "jsstring \<Rightarrow> jsstring" where
  "toUpperCase s = map (\<lambda>c. if cu CHR ''a'' \<le> c \<and> c \<le> cu CHR ''z'' then c - 32 else c) s"

text \<open>The range lists of the character classes in the source's literals.\<close>

definition name_ranges :: "(jschar \<times> jschar) list" where
  \<comment> \<open>\<open>-a-zA-Z0-9_\<close>\<close>
  "name_ranges =
     [(cu CHR ''-'', cu CHR ''-''), (cu CHR ''a'', cu CHR ''z''), (cu CHR ''A'', cu CHR ''Z''),
      (cu CHR ''0'', cu CHR ''9''), (cu CHR ''_'', cu CHR ''_'')]"

definition alphanumeric_ranges :: "(jschar \<times> jschar) list" where
  \<comment> \<open>\<open>a-zA-Z0-9\<close>\<close>
  "alphanumeric_ranges =
     [(cu CHR ''a'', cu CHR ''z''), (cu CHR ''A'', cu CHR ''Z''), (cu CHR ''0'', cu CHR ''9'')]"

definition lowercase_ranges :: "(jschar \<times> jschar) list" where
  \<comment> \<open>\<open>a-z\<close>\<close>
  "lowercase_ranges = [(cu CHR ''a'', cu CHR ''z'')]"

definition lowercase_digit_ranges :: "(jschar \<times> jschar) list" where
  \<comment> \<open>\<open>a-z0-9\<close>\<close>
  "lowercase_digit_ranges = [(cu CHR ''a'', cu CHR ''z''), (cu CHR ''0'', cu CHR ''9'')]"

text \<open>The five regular expression literals of the source.\<close>

definition circuitName_bad_char :: regex where
  \<comment> \<open>\<open>/[^-a-zA-Z0-9_]/g\<close>\<close>
  "circuitName_bad_char = Regex False [(CharClass True name_ranges, Once)] False True"

definition circuitName_pattern :: regex where
  \<comment> \<open>\<open>/^[-a-zA-Z0-9_]+$/\<close>\<close>
  "circuitName_pattern = Regex True [(CharClass False name_ranges, Plus)] True False"

definition non_alphanumeric :: regex where
  \<comment> \<open>\<open>/[^a-zA-Z0-9]/g\<close>\<close>
  "non_alphanumeric = Regex False [(CharClass True alphanumeric_ranges, Once)] False True"

definition leading_non_lowercase :: regex where
  \<comment> \<open>\<open>/^[^a-z]*/\<close>\<close>
  "leading_non_lowercase = Regex True [(CharClass True lowercase_ranges, Star)] False False"

definition packageName_pattern :: regex where
  \<comment> \<open>\<open>/^[a-z][a-z0-9]*$/\<close>\<close>
  "packageName_pattern =
     Regex True
       [(CharClass False lowercase_ranges, Once), (CharClass False lowercase_digit_ranges, Star)]
       True False"

subsection \<open>Validators and default values of the two text prompts\<close>

text \<open>
  A \<open>validate\<close> callback returns \<open>true\<close> or the reason of the rejection
  (\<open>boolean | string\<close>).
\<close>

datatype validation = Valid | Invalid jsstring

definition circuitName_validate :: "jsstring \<Rightarrow> validation" where
  "circuitName_validate input =
     (if length input = 0 then Invalid (js ''You must specify a circuit name.'')
      else if \<not> regex_test circuitName_pattern input
      then Invalid (js ''Only alphanumeric characters, hyphens, and underscores are allowed.'')
      else Valid)"

definition circuitName_default :: "jsstring \<Rightarrow> jsstring" where
  "circuitName_default directoryName = regex_replace circuitName_bad_char (js ''-'') directoryName"

definition packageName_validate :: "jsstring \<Rightarrow> validation" where
  "packageName_validate input =
     (if length input = 0 then Invalid (js ''You must specify a package name.'')
      else if \<not> regex_test packageName_pattern input
      then Invalid
        (js ''Package names must begin with a lowercase letter and only be followed by '' @
         js ''alphanumeric characters.'')
      else Valid)"

definition packageName_default :: "jsstring \<Rightarrow> jsstring" where
  "packageName_default circuitName =
     regex_replace leading_non_lowercase (js '''')
       (regex_replace non_alphanumeric (js '''') circuitName)"

text \<open>
  The character classes in the words of the specification: lowercase letters, uppercase
  letters, digits, and the characters allowed in a project name (hyphens, underscores and
  alphanumerics).
\<close>

definition is_lower :: "jschar \<Rightarrow> bool" where
  "is_lower c = (cu CHR ''a'' \<le> c \<and> c \<le> cu CHR ''z'')"

definition is_upper :: "jschar \<Rightarrow> bool" where
  "is_upper c = (cu CHR ''A'' \<le> c \<and> c \<le> cu CHR ''Z'')"

definition is_digit :: "jschar \<Rightarrow> bool" where
  "is_digit c = (cu CHR ''0'' \<le> c \<and> c \<le> cu CHR ''9'')"

definition is_alphanumeric :: "jschar \<Rightarrow> bool" where
  "is_alphanumeric c = (is_lower c \<or> is_upper c \<or> is_digit c)"

definition is_name_char :: "jschar \<Rightarrow> bool" where
  "is_name_char c = (c = cu CHR ''-'' \<or> c = cu CHR ''_'' \<or> is_alphanumeric c)"

subsection \<open>The world the action runs in\<close>

text \<open>
  What lies at the resolved target path when the action starts: nothing, something that is
  not a directory, or a directory with its entries (\<open>existsSync\<close>, \<open>statSync\<close>,
  \<open>readdirSync\<close>).
\<close>

datatype fs_node = Missing | File | Directory "jsstring list"

text \<open>The values a \<open>select\<close> prompt can return, as the source's union types have them.\<close>

datatype circuit_type = Circom | Gnark | Halo2 | Noir

datatype proving_scheme = Groth16

datatype curve = Bn254 | Bls12_377 | Bls12_381 | Bls24_315 | Bw6_633 | Bw6_761

fun circuitType_value :: "circuit_type \<Rightarrow> jsstring" where
  "circuitType_value Circom = js ''circom''"
| "circuitType_value Gnark = js ''gnark''"
| "circuitType_value Halo2 = js ''halo2''"
| "circuitType_value Noir = js ''noir''"

fun provingScheme_value :: "proving_scheme \<Rightarrow> jsstring" where
  "provingScheme_value Groth16 = js ''groth16''"

fun curveName_value :: "curve \<Rightarrow> jsstring" where
  "curveName_value Bn254 = js ''bn254''"
| "curveName_value Bls12_377 = js ''bls12-377''"
| "curveName_value Bls12_381 = js ''bls12-381''"
| "curveName_value Bls24_315 = js ''bls24-315''"
| "curveName_value Bw6_633 = js ''bw6-633''"
| "curveName_value Bw6_761 = js ''bw6-761''"

text \<open>
  Objects are their own properties in insertion order. \<open>Object.assign\<close> and an assignment
  to a property overwrite a key in place and append a new one; \<open>key in obj\<close> asks for
  the key.
\<close>

datatype jsvalue =
  JString jsstring | JBuffer "8 word list" | JNumber int | JNull | JArray "jsvalue list"

type_synonym jsobject = "(jsstring \<times> jsvalue) list"

definition has_key :: "jsstring \<Rightarrow> jsobject \<Rightarrow> bool" where
  "has_key key obj = (map_of obj key \<noteq> None)"

definition object_assign :: "jsobject \<Rightarrow> jsobject \<Rightarrow> jsobject" where
  "object_assign target source = foldl (\<lambda>obj (key, v). AList.update key v obj) target source"

text \<open>\<open>execSync\<close> returns, or throws an error object.\<close>

datatype exec_result = Succeeds | Throws jsobject

text \<open>
  The inputs of one run. \<open>directoryPath\<close> and \<open>directoryName\<close> are the results of
  \<open>path.resolve\<close> and \<open>path.basename\<close>. The entries of a text prompt are what the user
  submits, in order, until one passes validation. The two scaffolding fields say whether
  the call's promise resolves. The file system calls themselves (\<open>mkdirSync\<close>,
  \<open>readdirSync\<close>, \<open>statSync\<close>, \<open>rmSync\<close>) are taken to succeed: permission and I/O
  failures of the file system are outside this model.
\<close>

record world =
  directoryPath :: jsstring
  directoryName :: jsstring
  target :: fs_node
  overwrite_answer :: bool
  circuitName_entries :: "jsstring list"
  circuitType_choice :: circuit_type
  packageName_entries :: "jsstring list"
  provingScheme_choice :: proving_scheme
  curveName_choice :: curve
  scaffold_common :: bool
  scaffold_circuit :: bool
  gitkeep_exists :: bool
  git_version :: exec_result
  dot_git_exists :: bool
  initializeGit_answer :: bool
  git_init :: exec_result
  git_add :: exec_result
  git_commit :: exec_result

subsection \<open>Observable calls and the ways a run ends\<close>

datatype level = Debug | Info | Warn | Error | Fatal

text \<open>
  One event per call that acts on the outside: a prompt carries its message, its default
  and the answer it returned (for a text prompt \<open>None\<close> when no entry passed validation);
  \<open>ScaffoldDirectory\<close> carries the template set, the target directory and the context.
  \<open>scaffoldDirectory\<close> and \<open>logger\<close> are imported from other modules of the
  program (\<open>cli/utils\<close>, \<open>cli/logging\<close>): the model keeps their calls with the
  arguments, and of \<open>scaffoldDirectory\<close> whether its promise resolves.
\<close>

datatype event =
    MkdirSync jsstring
  | Log level jsstring
  | LogObject level jsobject
  | Confirm jsstring bool bool
  | Input jsstring jsstring "jsstring option"
  | Select jsstring jsstring "(jsstring \<times> jsstring) list" jsstring
  | ScaffoldDirectory jsstring jsstring jsobject
  | RmSync jsstring
  | ExecSync jsstring "jsstring option"

text \<open>
  The action returns (the process then ends with status 0), calls \<open>process.exit\<close> with a
  status, fails with the uncaught rejection of a scaffolding call, or is still waiting at
  a text prompt for an entry that passes validation.
\<close>

datatype outcome = Returned | Exited nat | ScaffoldRejected | AwaitingInput

type_synonym run = "event list \<times> outcome"

definition emit :: "event list \<Rightarrow> run \<Rightarrow> run" where
  "emit es r = (es @ fst r, snd r)"

definition scaffold_calls :: "event list \<Rightarrow> event list" where
  "scaffold_calls tr = filter (\<lambda>e. case e of ScaffoldDirectory t d c \<Rightarrow> True | _ \<Rightarrow> False) tr"

definition prompts :: "event list \<Rightarrow> event list" where
  "prompts tr =
     filter (\<lambda>e. case e of Confirm m d a \<Rightarrow> True | Input m d a \<Rightarrow> True
                  | Select m d cs a \<Rightarrow> True | _ \<Rightarrow> False) tr"

definition fs_mutations :: "event list \<Rightarrow> event list" where
  "fs_mutations tr =
     filter (\<lambda>e. case e of MkdirSync p \<Rightarrow> True | RmSync p \<Rightarrow> True
                  | ScaffoldDirectory t d c \<Rightarrow> True | _ \<Rightarrow> False) tr"

subsection \<open>The prompt library\<close>

text \<open>
  The \<open>input\<close> prompt of the prompt library: an empty submission stands for the
  default value; the submitted value goes through \<open>validate\<close>, and the prompt asks again
  until the callback returns \<open>true\<close>.
\<close>

fun input_prompt :: "jsstring \<Rightarrow> (jsstring \<Rightarrow> validation) \<Rightarrow> jsstring list \<Rightarrow> jsstring option" where
  "input_prompt dflt validate [] = None"
| "input_prompt dflt validate (typed # entries) =
     (let answer = (if typed = [] then dflt else typed)
      in if validate answer = Valid then Some answer
         else input_prompt dflt validate entries)"

subsection \<open>Paths and messages\<close>

text \<open>\<open>path.join\<close> of a resolved path and a file name.\<close>

definition path_join :: "jsstring \<Rightarrow> jsstring \<Rightarrow> jsstring" where
  "path_join dir name =
     (if dir \<noteq> [] \<and> last dir = cu CHR ''/'' then dir @ name else dir @ js ''/'' @ name)"

definition quoted :: "jsstring \<Rightarrow> jsstring" where
  "quoted s = cu (CHR 0x22) # s @ [cu (CHR 0x22)]"

definition not_a_directory_message :: "jsstring \<Rightarrow> jsstring" where
  "not_a_directory_message p =
     js ''File '' @ quoted p @ js '' exists and is not a directory, aborting.''"

definition overwrite_message :: "jsstring \<Rightarrow> jsstring" where
  "overwrite_message p =
     js ''The '' @ quoted p @
     js '' directory already exists and contains files. Continuing will '' @
     js ''overwrite your existing files. Are you *SURE* you would like to proceed?''"

definition unsupported_message :: "jsstring \<Rightarrow> jsstring" where
  "unsupported_message circuitType = js ''Sorry, '' @ circuitType @ js '' is not yet supported.''"

definition proceeding_message :: "jsstring \<Rightarrow> jsstring" where
  "proceeding_message p =
     js ''Proceeding to generate scaffolded project in '' @ quoted p @ js ''.''"

definition initialize_question :: "jsstring \<Rightarrow> jsstring" where
  "initialize_question p =
     js ''Would you like to initialize a git repository in '' @ quoted p @ js ''?''"

definition initializing_message :: "jsstring \<Rightarrow> jsstring" where
  "initializing_message p = js ''Initializing git repository in '' @ quoted p @ js ''.''"

definition git_commit_command :: jsstring where
  "git_commit_command =
     js ''git commit -m '' @ cu (CHR 0x27) # js ''Initial commit.'' @ [cu (CHR 0x27)]"

definition circuitType_choices :: "(jsstring \<times> jsstring) list" where
  "circuitType_choices =
     [(js ''Circom'', js ''circom''), (js ''Gnark'', js ''gnark''),
      (js ''Halo2'', js ''halo2''), (js ''Noir'', js ''noir'')]"

definition provingScheme_choices :: "(jsstring \<times> jsstring) list" where
  "provingScheme_choices = [(js ''Groth16'', js ''groth16'')]"

definition curveName_choices :: "(jsstring \<times> jsstring) list" where
  "curveName_choices =
     [(js ''BN254'', js ''bn254''), (js ''BLS12-377'', js ''bls12-377''),
      (js ''BLS12-381'', js ''bls12-381''), (js ''BLS24-315'', js ''bls24-315''),
      (js ''BW6-633'', js ''bw6-633''), (js ''BW6-761'', js ''bw6-761'')]"

subsection \<open>The action of \<open>initCommand\<close>\<close>

text \<open>
  The action is one function in the source; it is cut here at its own comments, last
  block first. The \<open>catch\<close> block of the git initialisation: every noisy key the error
  has is overwritten, then the error is logged.
\<close>

definition noisyKeys :: "jsstring list" where
  "noisyKeys = [js ''output'', js ''stderr'', js ''stdout'']"

definition truncate_noisy :: "jsobject \<Rightarrow> jsobject" where
  "truncate_noisy execError =
     foldl (\<lambda>obj key. if has_key key obj then AList.update key (JString (js ''<truncated>'')) obj
                       else obj)
       execError noisyKeys"

definition catch_git_error :: "jsobject \<Rightarrow> event list" where
  "catch_git_error error =
     [Log Error (js ''Error occurred while initializing the git repository.''),
      LogObject Error (truncate_noisy error)]"

text \<open>The \<open>try\<close> block: three commands in the target directory, left at the first throw.\<close>

definition try_git_commands :: "world \<Rightarrow> event list" where
  "try_git_commands w =
     (let cwd = Some (directoryPath w);
          init = ExecSync (js ''git init .'') cwd;
          add = ExecSync (js ''git add .'') cwd;
          commit = ExecSync git_commit_command cwd
      in case git_init w of
           Throws error \<Rightarrow> init # catch_git_error error
         | Succeeds \<Rightarrow>
             (case git_add w of
                Throws error \<Rightarrow> init # add # catch_git_error error
              | Succeeds \<Rightarrow>
                  (case git_commit w of
                     Throws error \<Rightarrow> init # add # commit # catch_git_error error
                   | Succeeds \<Rightarrow>
                       [init, add, commit,
                        Log Info (js ''Successfully initialized git repository.'')])))"

text \<open>``Optionally, initialize a git repository.''\<close>

definition initialize_git :: "world \<Rightarrow> run" where
  "initialize_git w =
     (let gitInstalled = (git_version w = Succeeds);
          probe =
            ExecSync (js ''git --version'') None #
            (if gitInstalled then []
             else [Log Debug (js ''Git is not installed, skipping git initialization questions.'')]);
          gitAlreadyInitialized = dot_git_exists w
      in if gitInstalled \<and> \<not> gitAlreadyInitialized
         then (let initializeGit = initializeGit_answer w;
                   question = Confirm (initialize_question (directoryPath w)) True initializeGit
               in if initializeGit
                  then (probe @ question # Log Info (initializing_message (directoryPath w)) #
                          try_git_commands w, Returned)
                  else (probe @ [question], Returned))
         else (probe, Returned))"

text \<open>
  ``Perform the scaffolding.'' A scaffolding call whose promise rejects ends the action
  there: nothing catches it.
\<close>

definition perform_scaffolding :: "world \<Rightarrow> circuit_type \<Rightarrow> jsobject \<Rightarrow> run" where
  "perform_scaffolding w circuitType context =
     emit [Log Info (proceeding_message (directoryPath w)),
           ScaffoldDirectory (js ''common'') (directoryPath w) context]
       (if \<not> scaffold_common w then ([], ScaffoldRejected)
        else emit [ScaffoldDirectory (circuitType_value circuitType) (directoryPath w) context]
          (if \<not> scaffold_circuit w then ([], ScaffoldRejected)
           else (let gitKeepFile = path_join (directoryPath w) (js ''.gitkeep'')
                 in emit ((if gitkeep_exists w then [RmSync gitKeepFile] else []) @
                          [Log Info (js ''Project scaffolding successful.'')])
                      (initialize_git w))))"

text \<open>The derived field of the Gnark branch.\<close>

definition gnarkCurveName_of :: "jsstring \<Rightarrow> jsstring" where
  "gnarkCurveName_of curveName = string_replace (js ''-'') (js ''_'') (toUpperCase curveName)"

text \<open>
  ``Handle individual circuit types.'' The Gnark branch asks three questions and extends
  the context; every other framework is fatal.
\<close>

definition handle_circuit_type :: "world \<Rightarrow> jsstring \<Rightarrow> circuit_type \<Rightarrow> run" where
  "handle_circuit_type w circuitName circuitType =
     (let context =
            [(js ''circuitName'', JString circuitName),
             (js ''circuitType'', JString (circuitType_value circuitType))]
      in if circuitType = Gnark
         then (let dflt = packageName_default circuitName
               in case input_prompt dflt packageName_validate (packageName_entries w) of
                    None \<Rightarrow> ([Input (js ''Go Package Name:'') dflt None], AwaitingInput)
                  | Some packageName \<Rightarrow>
                      (let provingScheme = provingScheme_value (provingScheme_choice w);
                           curveName = curveName_value (curveName_choice w);
                           gnarkCurveName = gnarkCurveName_of curveName;
                           context' = object_assign context
                             [(js ''curveName'', JString curveName),
                              (js ''gnarkCurveName'', JString gnarkCurveName),
                              (js ''packageName'', JString packageName),
                              (js ''provingScheme'', JString provingScheme)]
                       in emit
                            [Input (js ''Go Package Name:'') dflt (Some packageName),
                             Select (js ''Proving Scheme:'') (js ''groth16'')
                               provingScheme_choices provingScheme,
                             Select (js ''Curve Name:'') (js ''bn254'') curveName_choices curveName]
                            (perform_scaffolding w circuitType context')))
         else ([Log Fatal (unsupported_message (circuitType_value circuitType))], Exited 1))"

text \<open>``Collect common fields.''\<close>

definition collect_common_fields :: "world \<Rightarrow> run" where
  "collect_common_fields w =
     (let dflt = circuitName_default (directoryName w)
      in case input_prompt dflt circuitName_validate (circuitName_entries w) of
           None \<Rightarrow> ([Input (js ''Circuit Name:'') dflt None], AwaitingInput)
         | Some circuitName \<Rightarrow>
             (let circuitType = circuitType_choice w
              in emit
                   [Input (js ''Circuit Name:'') dflt (Some circuitName),
                    Select (js ''Proving Framework:'') (js ''gnark'') circuitType_choices
                      (circuitType_value circuitType)]
                   (handle_circuit_type w circuitName circuitType)))"

text \<open>``Check that the directory is empty.''\<close>

definition check_directory_empty :: "world \<Rightarrow> jsstring list \<Rightarrow> run" where
  "check_directory_empty w existingFiles =
     (if length existingFiles > 0
      then (let proceed = overwrite_answer w
            in emit [Confirm (overwrite_message (directoryPath w)) False proceed]
                 (if \<not> proceed then ([Log Info (js ''Aborting.'')], Exited 1)
                  else collect_common_fields w))
      else collect_common_fields w)"

text \<open>
  ``Ensure that the directory exists.'' A directory that \<open>mkdirSync\<close> has just made has
  no entries.
\<close>

definition initCommand :: "world \<Rightarrow> run" where
  "initCommand w =
     (case target w of
        Missing \<Rightarrow> emit [MkdirSync (directoryPath w)] (check_directory_empty w [])
      | File \<Rightarrow> ([Log Warn (not_a_directory_message (directoryPath w))], Exited 1)
      | Directory existingFiles \<Rightarrow> check_directory_empty w existingFiles)"

text \<open>
  The derived field in the words of the specification: every character upper-cased, the
  separator \<open>-\<close> replaced by an underscore.
\<close>

definition upper_with_underscores :: "jsstring \<Rightarrow> jsstring" where
  "upper_with_underscores s =
     map (\<lambda>c. if c = cu CHR ''-'' then cu CHR ''_''
              else if is_lower c then c - 32 else c) s"

text \<open>
  The package pattern in the words of the specification: a lowercase letter first, then
  lowercase letters and digits only.
\<close>

definition lowercase_then_lowercase_digits :: "jsstring \<Rightarrow> bool" where
  "lowercase_then_lowercase_digits s =
     (case s of [] \<Rightarrow> False
      | c # cs \<Rightarrow> is_lower c \<and> list_all (\<lambda>x. is_lower x \<or> is_digit x) cs)"

subsection \<open>A sample run\<close>

text \<open>
  The target directory exists and holds a file, the user accepts to overwrite it, types a
  name with a space and an exclamation mark and then takes the default, chooses Gnark,
  types a capitalised package name and then a valid one, picks the curve \<open>bls12-377\<close>
  and accepts the git initialisation, whose \<open>git commit\<close> fails.
\<close>

text \<open>
  The error \<open>execSync\<close> throws for a command that exits with a status other than 0: the
  exit status, the signal, the captured streams as \<open>output\<close>, the process id, and the two
  streams again as \<open>stdout\<close> and \<open>stderr\<close>.
\<close>

definition example_error :: jsobject where
  "example_error =
     [(js ''status'', JNumber 128), (js ''signal'', JNull),
      (js ''output'', JArray [JNull, JBuffer [], JBuffer [102, 97, 116, 97, 108]]),
      (js ''pid'', JNumber 4242), (js ''stdout'', JBuffer []),
      (js ''stderr'', JBuffer [102, 97, 116, 97, 108])]"

definition example_world :: world where
  "example_world =
     \<lparr>directoryPath = js ''/work/my circuit'', directoryName = js ''my circuit'',
      target = Directory [js ''README.md''], overwrite_answer = True,
      circuitName_entries = [js ''bad name!'', []],
      circuitType_choice = Gnark,
      packageName_entries = [js ''Circuit'', js ''circuit2''],
      provingScheme_choice = Groth16, curveName_choice = Bls12_377,
      scaffold_common = True, scaffold_circuit = True, gitkeep_exists = True,
      git_version = Succeeds, dot_git_exists = False, initializeGit_answer = True,
      git_init = Succeeds, git_add = Succeeds, git_commit = Throws example_error\<rparr>"

section \<open>Properties\<close>

subsection \<open>What the regular expressions of the source decide\<close>

lemma match_at_star_eol:
  "match_at [(C, Star)] True s = (if list_all (in_class C) s then Some [] else None)"
  by (induction s) simp_all

lemma match_at_plus_eol:
  "match_at [(C, Plus)] True s = (if s \<noteq> [] \<and> list_all (in_class C) s then Some [] else None)"
  by (cases s) (simp_all add: match_at_star_eol)

lemma match_at_once_star_eol:
  "match_at [(C, Once), (D, Star)] True s =
     (case s of [] \<Rightarrow> None
      | c # cs \<Rightarrow> if in_class C c \<and> list_all (in_class D) cs then Some [] else None)"
  by (cases s) (simp_all add: match_at_star_eol)

lemma match_at_star_open:
  "match_at [(C, Star)] False s = Some (dropWhile (in_class C) s)"
  by (induction s) simp_all

lemma find_match_anchored:
  "anchor_start r \<Longrightarrow>
   find_match r s = map_option (Pair []) (match_at (atoms r) (anchor_end r) s)"
  by (cases s) (simp_all split: option.splits)

lemma replace_all_class:
  "replace_all (Regex a [(C, Once)] False g) rep s =
     concat (map (\<lambda>c. if in_class C c then rep else [c]) s)"
  by (induction s) simp_all

lemma replace_all_delete:
  "replace_all (Regex False [(C, Once)] False True) [] t = filter (\<lambda>c. \<not> in_class C c) t"
  by (induction t) (simp_all del: in_class.simps)

lemma in_name_class: "in_class (CharClass neg name_ranges) = (\<lambda>c. is_name_char c \<noteq> neg)"
  by (auto simp: name_ranges_def is_name_char_def is_alphanumeric_def is_lower_def is_upper_def
      is_digit_def fun_eq_iff)

lemma in_alphanumeric_class:
  "in_class (CharClass neg alphanumeric_ranges) = (\<lambda>c. is_alphanumeric c \<noteq> neg)"
  by (auto simp: alphanumeric_ranges_def is_alphanumeric_def is_lower_def is_upper_def
      is_digit_def fun_eq_iff)

lemma in_lowercase_class: "in_class (CharClass neg lowercase_ranges) = (\<lambda>c. is_lower c \<noteq> neg)"
  by (auto simp: lowercase_ranges_def is_lower_def fun_eq_iff)

lemma in_lowercase_digit_class:
  "in_class (CharClass neg lowercase_digit_ranges) = (\<lambda>c. (is_lower c \<or> is_digit c) \<noteq> neg)"
  by (auto simp: lowercase_digit_ranges_def is_lower_def is_digit_def fun_eq_iff)

lemma test_circuitName_pattern:
  "regex_test circuitName_pattern s = (s \<noteq> [] \<and> list_all is_name_char s)"
  unfolding regex_test_def circuitName_pattern_def
  by (simp add: find_match_anchored match_at_plus_eol in_name_class del: in_class.simps)

lemma test_packageName_pattern:
  "regex_test packageName_pattern s = lowercase_then_lowercase_digits s"
  unfolding regex_test_def packageName_pattern_def lowercase_then_lowercase_digits_def
  by (simp add: find_match_anchored match_at_once_star_eol in_lowercase_class
      in_lowercase_digit_class del: in_class.simps split: list.splits)

lemma circuitName_default_map:
  "circuitName_default d = map (\<lambda>c. if is_name_char c then c else cu CHR ''-'') d"
  unfolding circuitName_default_def circuitName_bad_char_def regex_replace_def
  by (induction d) (simp_all add: replace_all_class in_name_class js_def del: in_class.simps)

lemma packageName_default_filter:
  "packageName_default s = dropWhile (\<lambda>c. \<not> is_lower c) (filter is_alphanumeric s)"
  unfolding packageName_default_def non_alphanumeric_def leading_non_lowercase_def
    regex_replace_def
  by (simp add: find_match_anchored match_at_star_open in_lowercase_class in_alphanumeric_class
      js_def replace_all_delete del: in_class.simps)

lemmas string_defs = circuitName_default_def circuitName_validate_def packageName_default_def
  packageName_validate_def regex_replace_def regex_test_def circuitName_bad_char_def
  circuitName_pattern_def non_alphanumeric_def leading_non_lowercase_def packageName_pattern_def
  name_ranges_def alphanumeric_ranges_def lowercase_ranges_def lowercase_digit_ranges_def

lemmas char_defs = is_name_char_def is_alphanumeric_def is_lower_def is_upper_def is_digit_def

lemmas run_defs = initCommand_def check_directory_empty_def collect_common_fields_def
  handle_circuit_type_def perform_scaffolding_def initialize_git_def try_git_commands_def
  catch_git_error_def emit_def Let_def

subsection \<open>The run up to the scaffolding\<close>

lemma fst_emit: "fst (emit es r) = es @ fst r"
  by (simp add: emit_def)

lemma snd_emit: "snd (emit es r) = snd r"
  by (simp add: emit_def)

lemma emit_emit: "emit es (emit fs r) = emit (es @ fs) r"
  by (simp add: emit_def)

lemma scaffold_calls_append: "scaffold_calls (xs @ ys) = scaffold_calls xs @ scaffold_calls ys"
  by (simp add: scaffold_calls_def)

lemma fs_mutations_append: "fs_mutations (xs @ ys) = fs_mutations xs @ fs_mutations ys"
  by (simp add: fs_mutations_def)

lemma curve_question_not_framework: "js ''Curve Name:'' \<noteq> js ''Proving Framework:''"
  by (simp add: js_def)

lemma name_question_not_package: "js ''Circuit Name:'' \<noteq> js ''Go Package Name:''"
  by (simp add: js_def)

lemma fs_mutations_try: "fs_mutations (try_git_commands w) = []"
  by (simp add: try_git_commands_def catch_git_error_def fs_mutations_def Let_def
      split: exec_result.splits)

lemma fs_mutations_initialize_git: "fs_mutations (fst (initialize_git w)) = []"
  using fs_mutations_try[of w]
  by (simp add: initialize_git_def Let_def fs_mutations_def)

lemma scaffold_calls_initialize_git: "scaffold_calls (fst (initialize_git w)) = []"
proof -
  have "scaffold_calls tr = scaffold_calls (fs_mutations tr)" for tr
    by (induction tr) (auto simp: scaffold_calls_def fs_mutations_def split: event.splits)
  then show ?thesis by (metis fs_mutations_initialize_git scaffold_calls_def filter.simps(1))
qed

lemma snd_initialize_git: "snd (initialize_git w) = Returned"
  by (simp add: initialize_git_def Let_def)

lemma no_input_in_initialize_git: "Input m d a \<notin> set (fst (initialize_git w))"
  by (simp add: initialize_git_def try_git_commands_def catch_git_error_def Let_def
      split: exec_result.splits)

lemma no_input_in_perform: "Input m d a \<notin> set (fst (perform_scaffolding w t c))"
  using no_input_in_initialize_git[of m d a w]
  by (simp add: perform_scaffolding_def emit_def Let_def)

lemma name_question_default:
  assumes "Input (js ''Circuit Name:'') dflt answer \<in> set (fst (initCommand w))"
  shows "dflt = circuitName_default (directoryName w)"
proof -
  have "Input (js ''Circuit Name:'') dflt answer \<notin> set (fst (handle_circuit_type w n t))" for n t
    using no_input_in_perform
    by (auto simp: handle_circuit_type_def emit_def Let_def name_question_not_package
        split: option.splits)
  then have "Input (js ''Circuit Name:'') dflt answer \<in> set (fst (collect_common_fields w))
      \<Longrightarrow> dflt = circuitName_default (directoryName w)"
    by (auto simp: collect_common_fields_def emit_def Let_def split: option.splits)
  with assms show ?thesis
    by (auto simp: initCommand_def check_directory_empty_def emit_def Let_def
        split: fs_node.splits if_splits)
qed

lemma gnark_context:
  "object_assign
     [(js ''circuitName'', JString n), (js ''circuitType'', JString t)]
     [(js ''curveName'', JString c), (js ''gnarkCurveName'', JString g),
      (js ''packageName'', JString p), (js ''provingScheme'', JString s)] =
   [(js ''circuitName'', JString n), (js ''circuitType'', JString t),
    (js ''curveName'', JString c), (js ''gnarkCurveName'', JString g),
    (js ''packageName'', JString p), (js ''provingScheme'', JString s)]"
  by (simp add: object_assign_def js_def)

lemma handle_gnark:
  assumes "input_prompt (packageName_default n) packageName_validate (packageName_entries w) = Some p"
  shows "handle_circuit_type w n Gnark =
     emit [Input (js ''Go Package Name:'') (packageName_default n) (Some p),
           Select (js ''Proving Scheme:'') (js ''groth16'') provingScheme_choices
             (provingScheme_value (provingScheme_choice w)),
           Select (js ''Curve Name:'') (js ''bn254'') curveName_choices
             (curveName_value (curveName_choice w))]
       (perform_scaffolding w Gnark
          [(js ''circuitName'', JString n), (js ''circuitType'', JString (js ''gnark'')),
           (js ''curveName'', JString (curveName_value (curveName_choice w))),
           (js ''gnarkCurveName'', JString (gnarkCurveName_of (curveName_value (curveName_choice w)))),
           (js ''packageName'', JString p),
           (js ''provingScheme'', JString (provingScheme_value (provingScheme_choice w)))])"
  using assms by (simp add: handle_circuit_type_def Let_def gnark_context)

lemma curve_question_in_handle:
  assumes "Select (js ''Curve Name:'') dc cs v \<in> set (fst (handle_circuit_type w n t))"
  shows "t = Gnark \<and>
    (\<exists>p. input_prompt (packageName_default n) packageName_validate (packageName_entries w) = Some p)"
  using assms
  by (auto simp: handle_circuit_type_def Let_def split: if_splits option.splits)

lemma curve_question_in_collect:
  assumes "Select (js ''Curve Name:'') dc cs v \<in> set (fst (collect_common_fields w))"
  shows "\<exists>n. input_prompt (circuitName_default (directoryName w)) circuitName_validate
                (circuitName_entries w) = Some n
           \<and> Select (js ''Curve Name:'') dc cs v
                \<in> set (fst (handle_circuit_type w n (circuitType_choice w)))"
  using assms
  by (auto simp: collect_common_fields_def Let_def emit_def curve_question_not_framework
      split: option.splits)

lemma curve_question_in_initCommand:
  assumes "Select (js ''Curve Name:'') dc cs v \<in> set (fst (initCommand w))"
  shows "Select (js ''Curve Name:'') dc cs v \<in> set (fst (collect_common_fields w))"
  using assms
  by (auto simp: initCommand_def check_directory_empty_def emit_def Let_def
      split: fs_node.splits if_splits)

lemma guard_passed:
  assumes "Select (js ''Curve Name:'') dc cs v \<in> set (fst (initCommand w))"
  shows "\<exists>pre. fs_mutations pre = (if target w = Missing then [MkdirSync (directoryPath w)] else [])
          \<and> scaffold_calls pre = []
          \<and> (\<forall>g c. ExecSync g c \<notin> set pre)
          \<and> (\<forall>r1 r2 r3. initCommand (w\<lparr>git_init := r1, git_add := r2, git_commit := r3\<rparr>) =
                emit pre (collect_common_fields (w\<lparr>git_init := r1, git_add := r2, git_commit := r3\<rparr>)))"
proof (cases "target w")
  case Missing
  show ?thesis
    by (rule exI[of _ "[MkdirSync (directoryPath w)]"])
      (simp add: Missing initCommand_def check_directory_empty_def fs_mutations_def
        scaffold_calls_def)
next
  case File
  with assms show ?thesis by (simp add: initCommand_def)
next
  case (Directory existingFiles)
  show ?thesis
  proof (cases "existingFiles = []")
    case True
    show ?thesis
      by (rule exI[of _ "[]"])
        (simp add: True Directory initCommand_def check_directory_empty_def emit_def
          fs_mutations_def scaffold_calls_def)
  next
    case False
    with Directory assms have yes: "overwrite_answer w"
      by (auto simp: initCommand_def check_directory_empty_def emit_def Let_def split: if_splits)
    show ?thesis
      by (rule exI[of _ "[Confirm (overwrite_message (directoryPath w)) False True]"])
        (simp add: False yes Directory initCommand_def check_directory_empty_def
          fs_mutations_def scaffold_calls_def)
  qed
qed

lemma reach_scaffolding:
  assumes asked: "Select (js ''Curve Name:'') dc cs v \<in> set (fst (initCommand w))"
  shows "\<exists>before n p.
      fs_mutations before = (if target w = Missing then [MkdirSync (directoryPath w)] else [])
      \<and> scaffold_calls before = []
      \<and> (\<forall>g c. ExecSync g c \<notin> set before)
      \<and> input_prompt (circuitName_default (directoryName w)) circuitName_validate
            (circuitName_entries w) = Some n
      \<and> input_prompt (packageName_default n) packageName_validate (packageName_entries w) = Some p
      \<and> Input (js ''Circuit Name:'') (circuitName_default (directoryName w)) (Some n) \<in> set before
      \<and> Input (js ''Go Package Name:'') (packageName_default n) (Some p) \<in> set before
      \<and> (\<forall>r1 r2 r3.
            initCommand (w\<lparr>git_init := r1, git_add := r2, git_commit := r3\<rparr>) =
            emit (before @
                  [Select (js ''Curve Name:'') (js ''bn254'') curveName_choices
                     (curveName_value (curveName_choice w))])
              (perform_scaffolding (w\<lparr>git_init := r1, git_add := r2, git_commit := r3\<rparr>) Gnark
                 [(js ''circuitName'', JString n), (js ''circuitType'', JString (js ''gnark'')),
                  (js ''curveName'', JString (curveName_value (curveName_choice w))),
                  (js ''gnarkCurveName'',
                   JString (gnarkCurveName_of (curveName_value (curveName_choice w)))),
                  (js ''packageName'', JString p),
                  (js ''provingScheme'', JString (provingScheme_value (provingScheme_choice w)))]))"
proof -
  from curve_question_in_collect[OF curve_question_in_initCommand[OF asked]]
  obtain n where n: "input_prompt (circuitName_default (directoryName w)) circuitName_validate
        (circuitName_entries w) = Some n"
    and handle: "Select (js ''Curve Name:'') dc cs v
        \<in> set (fst (handle_circuit_type w n (circuitType_choice w)))"
    by blast
  from curve_question_in_handle[OF handle] obtain p where gnark: "circuitType_choice w = Gnark"
    and p: "input_prompt (packageName_default n) packageName_validate (packageName_entries w) = Some p"
    by blast
  from guard_passed[OF asked] obtain pre
    where mut: "fs_mutations pre = (if target w = Missing then [MkdirSync (directoryPath w)] else [])"
      and calls: "scaffold_calls pre = []"
      and noexec: "\<And>g c. ExecSync g c \<notin> set pre"
      and run: "\<And>r1 r2 r3. initCommand (w\<lparr>git_init := r1, git_add := r2, git_commit := r3\<rparr>) =
          emit pre (collect_common_fields (w\<lparr>git_init := r1, git_add := r2, git_commit := r3\<rparr>))"
    by blast
  let ?questions =
     "[Input (js ''Circuit Name:'') (circuitName_default (directoryName w)) (Some n),
       Select (js ''Proving Framework:'') (js ''gnark'') circuitType_choices (js ''gnark''),
       Input (js ''Go Package Name:'') (packageName_default n) (Some p),
       Select (js ''Proving Scheme:'') (js ''groth16'') provingScheme_choices
         (provingScheme_value (provingScheme_choice w))]"
  let ?ctx =
     "[(js ''circuitName'', JString n), (js ''circuitType'', JString (js ''gnark'')),
       (js ''curveName'', JString (curveName_value (curveName_choice w))),
       (js ''gnarkCurveName'', JString (gnarkCurveName_of (curveName_value (curveName_choice w)))),
       (js ''packageName'', JString p),
       (js ''provingScheme'', JString (provingScheme_value (provingScheme_choice w)))]"
  have collect: "collect_common_fields (w\<lparr>git_init := r1, git_add := r2, git_commit := r3\<rparr>) =
      emit (?questions @ [Select (js ''Curve Name:'') (js ''bn254'') curveName_choices
                     (curveName_value (curveName_choice w))])
        (perform_scaffolding (w\<lparr>git_init := r1, git_add := r2, git_commit := r3\<rparr>) Gnark ?ctx)"
    for r1 r2 r3
  proof -
    let ?w = "w\<lparr>git_init := r1, git_add := r2, git_commit := r3\<rparr>"
    have "input_prompt (packageName_default n) packageName_validate (packageName_entries ?w) = Some p"
      using p by simp
    from handle_gnark[OF this] show ?thesis
      by (simp add: collect_common_fields_def n gnark emit_emit)
  qed
  show ?thesis
    by (rule exI[of _ "pre @ ?questions"], rule exI[of _ n], rule exI[of _ p])
      (simp add: run collect emit_emit mut calls noexec n p fs_mutations_append
         scaffold_calls_append,
       simp add: fs_mutations_def scaffold_calls_def)
qed

lemma has_truncated:
  "map_of (truncate_noisy error) key =
     (if key \<in> set noisyKeys \<and> has_key key error then Some (JString (js ''<truncated>''))
      else map_of error key)"
  by (auto simp: truncate_noisy_def noisyKeys_def has_key_def update_conv' js_def)

lemma truncate_keeps_keys: "map fst (truncate_noisy error) = map fst error"
  by (auto simp: truncate_noisy_def noisyKeys_def has_key_def update_keys map_of_eq_None_iff)

lemma scaffold_calls_perform:
  assumes "scaffold_common w"
  shows "scaffold_calls (fst (perform_scaffolding w t c)) =
     [ScaffoldDirectory (js ''common'') (directoryPath w) c,
      ScaffoldDirectory (circuitType_value t) (directoryPath w) c]"
  using assms scaffold_calls_initialize_git[of w]
  by (simp add: perform_scaffolding_def fst_emit Let_def scaffold_calls_append)
     (simp add: scaffold_calls_def)

lemma perform_scaffolding_ok:
  assumes "scaffold_common w" and "scaffold_circuit w"
  shows "perform_scaffolding w t c =
     emit ([Log Info (proceeding_message (directoryPath w)),
            ScaffoldDirectory (js ''common'') (directoryPath w) c,
            ScaffoldDirectory (circuitType_value t) (directoryPath w) c] @
           (if gitkeep_exists w then [RmSync (path_join (directoryPath w) (js ''.gitkeep''))] else []) @
           [Log Info (js ''Project scaffolding successful.'')])
       (initialize_git w)"
  using assms by (simp add: perform_scaffolding_def emit_emit Let_def)

lemma exec_in_perform:
  assumes "ExecSync g cwd \<in> set (fst (perform_scaffolding w t c))"
  shows "scaffold_common w \<and> scaffold_circuit w \<and> ExecSync g cwd \<in> set (fst (initialize_git w))"
  using assms
  by (auto simp: perform_scaffolding_def emit_def Let_def split: if_splits)

lemma exec_in_initialize_git:
  assumes "ExecSync g (Some d) \<in> set (fst (initialize_git w))"
  shows "git_version w = Succeeds \<and> \<not> dot_git_exists w \<and> initializeGit_answer w"
  using assms
  by (auto simp: initialize_git_def Let_def split: if_splits)

lemma initialize_git_run:
  assumes "git_version w = Succeeds" and "\<not> dot_git_exists w" and "initializeGit_answer w"
  shows "initialize_git w =
     ([ExecSync (js ''git --version'') None,
       Confirm (initialize_question (directoryPath w)) True True,
       Log Info (initializing_message (directoryPath w))] @ try_git_commands w, Returned)"
  using assms by (simp add: initialize_git_def)

lemma late_event_after_curve_question:
  assumes "e \<in> set (fst (initCommand w))"
    and "case e of ExecSync g c \<Rightarrow> True | ScaffoldDirectory t d c \<Rightarrow> True | RmSync p \<Rightarrow> True
         | _ \<Rightarrow> False"
  shows "Select (js ''Curve Name:'') (js ''bn254'') curveName_choices
           (curveName_value (curveName_choice w)) \<in> set (fst (initCommand w))"
  using assms
  by (auto simp: initCommand_def check_directory_empty_def collect_common_fields_def
      handle_circuit_type_def emit_def Let_def
      split: fs_node.splits if_splits option.splits event.splits)

subsection \<open>The directory checks and the choice of the framework\<close>


text \<open>
  C1. When the framework question has been asked and the answer is not Gnark, the run ends
  right after that question with a fatal message that names the chosen framework, the
  process exits with status 1, and \<open>scaffoldDirectory\<close> is never called.
\<close>

theorem unsupported_kind_is_fatal:
  assumes asked: "Select (js ''Proving Framework:'') (js ''gnark'') circuitType_choices
            (circuitType_value (circuitType_choice w)) \<in> set (fst (initCommand w))"
    and other: "circuitType_choice w \<noteq> Gnark"
  shows "snd (initCommand w) = Exited 1
    \<and> (\<exists>before. fst (initCommand w) =
          before @ [Select (js ''Proving Framework:'') (js ''gnark'') circuitType_choices
                      (circuitType_value (circuitType_choice w)),
                    Log Fatal (js ''Sorry, '' @ circuitType_value (circuitType_choice w) @
                               js '' is not yet supported.'')])
    \<and> scaffold_calls (fst (initCommand w)) = []"
proof -
  have handle: "handle_circuit_type w n (circuitType_choice w) =
      ([Log Fatal (js ''Sorry, '' @ circuitType_value (circuitType_choice w) @
                   js '' is not yet supported.'')], Exited 1)" for n
    using other by (simp add: handle_circuit_type_def unsupported_message_def)
  show ?thesis
    using asked
    by (auto simp: initCommand_def check_directory_empty_def collect_common_fields_def handle
        emit_def scaffold_calls_def Let_def split: fs_node.splits option.splits if_splits)
qed

theorem unsupported_kind_is_fatal_witness:
  "Select (js ''Proving Framework:'') (js ''gnark'') circuitType_choices
     (circuitType_value (circuitType_choice (example_world\<lparr>circuitType_choice := Circom\<rparr>)))
     \<in> set (fst (initCommand (example_world\<lparr>circuitType_choice := Circom\<rparr>)))
   \<and> circuitType_choice (example_world\<lparr>circuitType_choice := Circom\<rparr>) \<noteq> Gnark
   \<and> snd (initCommand (example_world\<lparr>circuitType_choice := Circom\<rparr>)) = Exited 1
   \<and> (\<exists>before. fst (initCommand (example_world\<lparr>circuitType_choice := Circom\<rparr>)) =
          before @ [Select (js ''Proving Framework:'') (js ''gnark'') circuitType_choices
                      (js ''circom''),
                    Log Fatal (js ''Sorry, circom is not yet supported.'')])
   \<and> scaffold_calls (fst (initCommand (example_world\<lparr>circuitType_choice := Circom\<rparr>))) = []"
proof -
  let ?w = "example_world\<lparr>circuitType_choice := Circom\<rparr>"
  have asked: "Select (js ''Proving Framework:'') (js ''gnark'') circuitType_choices
     (circuitType_value (circuitType_choice ?w)) \<in> set (fst (initCommand ?w))"
    by (simp add: example_world_def run_defs string_defs js_def)
  have other: "circuitType_choice ?w \<noteq> Gnark"
    by simp
  have framework: "circuitType_value (circuitType_choice ?w) = js ''circom''"
    by simp
  have message: "js ''Sorry, '' @ js ''circom'' @ js '' is not yet supported.'' =
      js ''Sorry, circom is not yet supported.''"
    by (simp add: js_def)
  from unsupported_kind_is_fatal[OF asked other] asked other
  show ?thesis unfolding framework message by blast
qed



text \<open>
  C3. When the target exists and is not a directory, the run only logs a warning: the
  process exits with status 1, no question is asked and \<open>scaffoldDirectory\<close> is never
  called.
\<close>

theorem not_a_directory_aborts:
  assumes "target w = File"
  shows "initCommand w = ([Log Warn (not_a_directory_message (directoryPath w))], Exited 1)
    \<and> snd (initCommand w) = Exited 1
    \<and> prompts (fst (initCommand w)) = []
    \<and> scaffold_calls (fst (initCommand w)) = []
    \<and> fs_mutations (fst (initCommand w)) = []"
  using assms by (simp add: initCommand_def prompts_def scaffold_calls_def fs_mutations_def)

theorem not_a_directory_aborts_witness:
  "target (example_world\<lparr>target := File\<rparr>) = File
   \<and> initCommand (example_world\<lparr>target := File\<rparr>) =
        ([Log Warn (not_a_directory_message (directoryPath (example_world\<lparr>target := File\<rparr>)))],
         Exited 1)
   \<and> snd (initCommand (example_world\<lparr>target := File\<rparr>)) = Exited 1
   \<and> prompts (fst (initCommand (example_world\<lparr>target := File\<rparr>))) = []
   \<and> scaffold_calls (fst (initCommand (example_world\<lparr>target := File\<rparr>))) = []
   \<and> fs_mutations (fst (initCommand (example_world\<lparr>target := File\<rparr>))) = []"
proof -
  have not_dir: "target (example_world\<lparr>target := File\<rparr>) = File"
    by simp
  from not_a_directory_aborts[OF not_dir] not_dir show ?thesis
    by blast
qed

subsection \<open>The validators and the default values\<close>

text \<open>
  C4. The validator of the project name accepts exactly the non-empty strings made of
  hyphens, underscores and alphanumerics; it rejects the empty string and every string with
  a character outside that class, each time with a reason that is not empty. The default
  value is the directory's base name with every character outside the class replaced by a
  hyphen, and it is the default the name prompt of a run shows.
\<close>

theorem circuitName_validation:
  "(circuitName_validate s = Valid \<longleftrightarrow> s \<noteq> [] \<and> list_all is_name_char s)
   \<and> (s = [] \<longrightarrow> circuitName_validate s = Invalid (js ''You must specify a circuit name.''))
   \<and> (list_ex (\<lambda>c. \<not> is_name_char c) s \<longrightarrow>
        circuitName_validate s =
          Invalid (js ''Only alphanumeric characters, hyphens, and underscores are allowed.''))
   \<and> (\<forall>reason. circuitName_validate s = Invalid reason \<longrightarrow> reason \<noteq> [])
   \<and> circuitName_default d = map (\<lambda>c. if is_name_char c then c else cu CHR ''-'') d
   \<and> (Input (js ''Circuit Name:'') dflt answer \<in> set (fst (initCommand w)) \<longrightarrow>
        dflt = map (\<lambda>c. if is_name_char c then c else cu CHR ''-'') (directoryName w))"
proof -
  have bad: "list_ex (\<lambda>c. \<not> is_name_char c) s \<longleftrightarrow> \<not> list_all is_name_char s"
    by (simp add: list_all_iff list_ex_iff)
  have reasons: "js ''You must specify a circuit name.'' \<noteq> []"
    "js ''Only alphanumeric characters, hyphens, and underscores are allowed.'' \<noteq> []"
    by (simp_all add: js_def)
  have "circuitName_validate s = Valid \<longleftrightarrow> s \<noteq> [] \<and> list_all is_name_char s"
    by (simp add: circuitName_validate_def test_circuitName_pattern)
  moreover have "s = [] \<longrightarrow>
      circuitName_validate s = Invalid (js ''You must specify a circuit name.'')"
    by (simp add: circuitName_validate_def)
  moreover have "list_ex (\<lambda>c. \<not> is_name_char c) s \<longrightarrow>
      circuitName_validate s =
        Invalid (js ''Only alphanumeric characters, hyphens, and underscores are allowed.'')"
    unfolding bad by (auto simp: circuitName_validate_def test_circuitName_pattern)
  moreover have "\<forall>reason. circuitName_validate s = Invalid reason \<longrightarrow> reason \<noteq> []"
    using reasons by (auto simp: circuitName_validate_def split: if_splits)
  moreover note circuitName_default_map[of d]
  moreover have "Input (js ''Circuit Name:'') dflt answer \<in> set (fst (initCommand w)) \<longrightarrow>
        dflt = map (\<lambda>c. if is_name_char c then c else cu CHR ''-'') (directoryName w)"
    using name_question_default[of dflt answer w] by (simp add: circuitName_default_map)
  ultimately show ?thesis by blast
qed

theorem circuitName_validation_witness:
  "circuitName_validate [] = Invalid (js ''You must specify a circuit name.'')
   \<and> list_ex (\<lambda>c. \<not> is_name_char c) (js ''bad name!'')
   \<and> circuitName_validate (js ''bad name!'') =
        Invalid (js ''Only alphanumeric characters, hyphens, and underscores are allowed.'')
   \<and> js ''Only alphanumeric characters, hyphens, and underscores are allowed.'' \<noteq> []
   \<and> circuitName_validate (js ''my-circuit_2'') = Valid
   \<and> circuitName_default (js ''my circuit'') = js ''my-circuit''
   \<and> Input (js ''Circuit Name:'') (js ''my-circuit'') (Some (js ''my-circuit''))
        \<in> set (fst (initCommand example_world))
   \<and> js ''my-circuit'' =
        map (\<lambda>c. if is_name_char c then c else cu CHR ''-'') (directoryName example_world)"
proof -
  have bad: "list_ex (\<lambda>c. \<not> is_name_char c) (js ''bad name!'')"
    by (simp add: js_def char_defs)
  have good: "js ''my-circuit_2'' \<noteq> [] \<and> list_all is_name_char (js ''my-circuit_2'')"
    by (simp add: js_def char_defs)
  have asked: "Input (js ''Circuit Name:'') (js ''my-circuit'') (Some (js ''my-circuit''))
        \<in> set (fst (initCommand example_world))"
    by (simp add: example_world_def run_defs string_defs js_def)
  have dflt: "map (\<lambda>c. if is_name_char c then c else cu CHR ''-'') (js ''my circuit'') =
      js ''my-circuit''"
    by (simp add: js_def char_defs)
  note empty = circuitName_validation[where s = "[]"]
  note rejected = circuitName_validation[where s = "js ''bad name!''"]
  note accepted = circuitName_validation[where s = "js ''my-circuit_2''" and d = "js ''my circuit''"
      and dflt = "js ''my-circuit''" and answer = "Some (js ''my-circuit'')" and w = example_world]
  have "circuitName_validate [] = Invalid (js ''You must specify a circuit name.'')"
    using empty by blast
  moreover have "circuitName_validate (js ''bad name!'') =
        Invalid (js ''Only alphanumeric characters, hyphens, and underscores are allowed.'')"
    using rejected bad by blast
  moreover have "js ''Only alphanumeric characters, hyphens, and underscores are allowed.'' \<noteq> []"
    using rejected bad by blast
  moreover have "circuitName_validate (js ''my-circuit_2'') = Valid"
    using accepted good by blast
  moreover have "circuitName_default (js ''my circuit'') = js ''my-circuit''"
    using accepted dflt by simp
  moreover have "js ''my-circuit'' =
        map (\<lambda>c. if is_name_char c then c else cu CHR ''-'') (directoryName example_world)"
    using accepted asked by blast
  ultimately show ?thesis using bad asked by blast
qed

text \<open>
  C5. The validator of the package identifier accepts exactly the strings that match
  \<open>^[a-z][a-z0-9]*$\<close>, a lowercase letter followed by lowercase letters and digits only; it
  rejects the empty string and every other string that does not match, each time with a
  reason string.
\<close>

theorem packageName_validation:
  "(packageName_validate s = Valid \<longleftrightarrow> s \<noteq> [] \<and> regex_test packageName_pattern s)
   \<and> (regex_test packageName_pattern s \<longleftrightarrow> lowercase_then_lowercase_digits s)
   \<and> (s = [] \<longrightarrow> packageName_validate s = Invalid (js ''You must specify a package name.''))
   \<and> (s \<noteq> [] \<and> \<not> regex_test packageName_pattern s \<longrightarrow>
        packageName_validate s =
          Invalid (js ''Package names must begin with a lowercase letter and only be followed by alphanumeric characters.''))
   \<and> (\<forall>reason. packageName_validate s = Invalid reason \<longrightarrow> reason \<noteq> [])"
proof -
  have message: "js ''Package names must begin with a lowercase letter and only be followed by '' @
      js ''alphanumeric characters.'' =
      js ''Package names must begin with a lowercase letter and only be followed by alphanumeric characters.''"
    by (simp add: js_def)
  have reasons: "js ''You must specify a package name.'' \<noteq> []"
    "js ''Package names must begin with a lowercase letter and only be followed by alphanumeric characters.'' \<noteq> []"
    by (simp_all add: js_def)
  have "packageName_validate s = Valid \<longleftrightarrow> s \<noteq> [] \<and> regex_test packageName_pattern s"
    by (simp add: packageName_validate_def)
  moreover note test_packageName_pattern[of s]
  moreover have "s = [] \<longrightarrow>
      packageName_validate s = Invalid (js ''You must specify a package name.'')"
    by (simp add: packageName_validate_def)
  moreover have "s \<noteq> [] \<and> \<not> regex_test packageName_pattern s \<longrightarrow>
        packageName_validate s =
          Invalid (js ''Package names must begin with a lowercase letter and only be followed by alphanumeric characters.'')"
    by (simp add: packageName_validate_def message)
  moreover have "\<forall>reason. packageName_validate s = Invalid reason \<longrightarrow> reason \<noteq> []"
    using reasons by (auto simp: packageName_validate_def message split: if_splits)
  ultimately show ?thesis by blast
qed

theorem packageName_validation_witness:
  "packageName_validate [] = Invalid (js ''You must specify a package name.'')
   \<and> js ''Circuit'' \<noteq> [] \<and> \<not> regex_test packageName_pattern (js ''Circuit'')
   \<and> \<not> lowercase_then_lowercase_digits (js ''Circuit'')
   \<and> packageName_validate (js ''Circuit'') =
        Invalid (js ''Package names must begin with a lowercase letter and only be followed by alphanumeric characters.'')
   \<and> lowercase_then_lowercase_digits (js ''circuit2'')
   \<and> packageName_validate (js ''circuit2'') = Valid"
proof -
  have bad: "js ''Circuit'' \<noteq> []" "\<not> lowercase_then_lowercase_digits (js ''Circuit'')"
    by (simp_all add: js_def lowercase_then_lowercase_digits_def char_defs)
  have good: "js ''circuit2'' \<noteq> []" "lowercase_then_lowercase_digits (js ''circuit2'')"
    by (simp_all add: js_def lowercase_then_lowercase_digits_def char_defs)
  note empty = packageName_validation[where s = "[]"]
  note rejected = packageName_validation[where s = "js ''Circuit''"]
  note accepted = packageName_validation[where s = "js ''circuit2''"]
  have "packageName_validate [] = Invalid (js ''You must specify a package name.'')"
    using empty by blast
  moreover have "\<not> regex_test packageName_pattern (js ''Circuit'')"
    using rejected bad by blast
  moreover have "packageName_validate (js ''Circuit'') =
        Invalid (js ''Package names must begin with a lowercase letter and only be followed by alphanumeric characters.'')"
    using rejected bad by blast
  moreover have "packageName_validate (js ''circuit2'') = Valid"
    using accepted good by blast
  ultimately show ?thesis using bad good by blast
qed

text \<open>
  C6. The default package identifier is the project name without its non-alphanumeric
  characters and then without its leading characters that are not lowercase letters;
  deriving it a second time changes nothing.
\<close>

theorem packageName_default_idempotent:
  "packageName_default (packageName_default s) = packageName_default s
   \<and> packageName_default s = dropWhile (\<lambda>c. \<not> is_lower c) (filter is_alphanumeric s)"
proof -
  let ?t = "filter is_alphanumeric s"
  let ?u = "dropWhile (\<lambda>c. \<not> is_lower c) ?t"
  have "set ?u \<subseteq> set ?t" by (auto dest: set_dropWhileD)
  then have "filter is_alphanumeric ?u = ?u" by (auto simp: filter_id_conv)
  then show ?thesis by (simp add: packageName_default_filter)
qed

subsection \<open>The Gnark branch, the scaffolding and the git initialisation\<close>

lemma gnarkCurveName_values:
  "gnarkCurveName_of (curveName_value c) = upper_with_underscores (curveName_value c)"
  by (cases c) (simp_all add: gnarkCurveName_of_def upper_with_underscores_def toUpperCase_def
      is_lower_def js_def)

lemma no_scaffold_call:
  assumes "scaffold_calls tr = []"
  shows "ScaffoldDirectory t d c \<notin> set tr"
proof
  assume "ScaffoldDirectory t d c \<in> set tr"
  then have "ScaffoldDirectory t d c \<in> set (scaffold_calls tr)"
    by (simp add: scaffold_calls_def)
  with assms show False by simp
qed

lemma scaffold_call_in_perform:
  assumes "ScaffoldDirectory t d c' \<in> set (fst (perform_scaffolding w ty c))"
  shows "c' = c"
  using assms no_scaffold_call[OF scaffold_calls_initialize_git, of t d c' w]
  by (auto simp: perform_scaffolding_def emit_def Let_def split: if_splits)

lemma perform_starts:
  "\<exists>rest. fst (perform_scaffolding w t c) =
     [Log Info (proceeding_message (directoryPath w)),
      ScaffoldDirectory (js ''common'') (directoryPath w) c] @ rest"
  by (simp add: perform_scaffolding_def fst_emit)

text \<open>
  C7. For each of the six curves the derived field is the value of the choice in upper
  case with the separator replaced by an underscore; for \<open>bls12-377\<close> it is
  \<open>BLS12_377\<close>. In a run, the curve question is followed at once by the scaffolding,
  with no further question, and the context of every scaffolding call holds the derived
  field.
\<close>

theorem gnarkCurveName_is_derived:
  "gnarkCurveName_of (curveName_value c) = upper_with_underscores (curveName_value c)
   \<and> map snd curveName_choices =
       map curveName_value [Bn254, Bls12_377, Bls12_381, Bls24_315, Bw6_633, Bw6_761]
   \<and> map (\<lambda>c. gnarkCurveName_of (curveName_value c))
         [Bn254, Bls12_377, Bls12_381, Bls24_315, Bw6_633, Bw6_761] =
       [js ''BN254'', js ''BLS12_377'', js ''BLS12_381'', js ''BLS24_315'', js ''BW6_633'',
        js ''BW6_761'']
   \<and> gnarkCurveName_of (js ''bls12-377'') = js ''BLS12_377''
   \<and> (Select (js ''Curve Name:'') (js ''bn254'') curveName_choices
         (curveName_value (curveName_choice w)) \<in> set (fst (initCommand w)) \<longrightarrow>
       (\<exists>before after context.
          fst (initCommand w) =
            before @
            [Select (js ''Curve Name:'') (js ''bn254'') curveName_choices
               (curveName_value (curveName_choice w)),
             Log Info (proceeding_message (directoryPath w)),
             ScaffoldDirectory (js ''common'') (directoryPath w) context] @ after
          \<and> map_of context (js ''curveName'') =
              Some (JString (curveName_value (curveName_choice w)))
          \<and> map_of context (js ''gnarkCurveName'') =
              Some (JString (upper_with_underscores (curveName_value (curveName_choice w))))))
   \<and> (ScaffoldDirectory t d passed \<in> set (fst (initCommand w)) \<longrightarrow>
        map_of passed (js ''gnarkCurveName'') =
          Some (JString (upper_with_underscores (curveName_value (curveName_choice w)))))"
proof -
  let ?curve = "Select (js ''Curve Name:'') (js ''bn254'') curveName_choices
                  (curveName_value (curveName_choice w))"
  have decompose: "\<exists>before context.
      fst (initCommand w) = before @ [?curve] @ fst (perform_scaffolding w Gnark context)
      \<and> scaffold_calls before = []
      \<and> map_of context (js ''curveName'') = Some (JString (curveName_value (curveName_choice w)))
      \<and> map_of context (js ''gnarkCurveName'') =
          Some (JString (upper_with_underscores (curveName_value (curveName_choice w))))"
    if asked: "?curve \<in> set (fst (initCommand w))"
  proof -
    from reach_scaffolding[OF asked] obtain pre n p
      where calls: "scaffold_calls pre = []"
        and run: "\<And>r1 r2 r3. initCommand (w\<lparr>git_init := r1, git_add := r2, git_commit := r3\<rparr>) =
          emit (pre @ [?curve])
            (perform_scaffolding (w\<lparr>git_init := r1, git_add := r2, git_commit := r3\<rparr>) Gnark
               [(js ''circuitName'', JString n), (js ''circuitType'', JString (js ''gnark'')),
                (js ''curveName'', JString (curveName_value (curveName_choice w))),
                (js ''gnarkCurveName'',
                 JString (gnarkCurveName_of (curveName_value (curveName_choice w)))),
                (js ''packageName'', JString p),
                (js ''provingScheme'', JString (provingScheme_value (provingScheme_choice w)))])"
      by blast
    let ?ctx =
       "[(js ''circuitName'', JString n), (js ''circuitType'', JString (js ''gnark'')),
         (js ''curveName'', JString (curveName_value (curveName_choice w))),
         (js ''gnarkCurveName'', JString (gnarkCurveName_of (curveName_value (curveName_choice w)))),
         (js ''packageName'', JString p),
         (js ''provingScheme'', JString (provingScheme_value (provingScheme_choice w)))]"
    have "initCommand w = emit (pre @ [?curve]) (perform_scaffolding w Gnark ?ctx)"
      using run[where ?r1.0 = "git_init w" and ?r2.0 = "git_add w" and ?r3.0 = "git_commit w"]
      by simp
    then have "fst (initCommand w) = pre @ [?curve] @ fst (perform_scaffolding w Gnark ?ctx)"
      by (simp add: fst_emit)
    moreover have "map_of ?ctx (js ''curveName'') =
        Some (JString (curveName_value (curveName_choice w)))"
      "map_of ?ctx (js ''gnarkCurveName'') =
        Some (JString (upper_with_underscores (curveName_value (curveName_choice w))))"
      by (simp_all add: js_def gnarkCurveName_values)
    ultimately show ?thesis using calls by blast
  qed
  have followed: "\<exists>before after context.
          fst (initCommand w) =
            before @
            [?curve, Log Info (proceeding_message (directoryPath w)),
             ScaffoldDirectory (js ''common'') (directoryPath w) context] @ after
          \<and> map_of context (js ''curveName'') =
              Some (JString (curveName_value (curveName_choice w)))
          \<and> map_of context (js ''gnarkCurveName'') =
              Some (JString (upper_with_underscores (curveName_value (curveName_choice w))))"
    if asked: "?curve \<in> set (fst (initCommand w))"
  proof -
    from decompose[OF asked] obtain before ctx
      where run: "fst (initCommand w) =
          before @ [?curve] @ fst (perform_scaffolding w Gnark ctx)"
        and fields: "map_of ctx (js ''curveName'') =
            Some (JString (curveName_value (curveName_choice w)))"
          "map_of ctx (js ''gnarkCurveName'') =
            Some (JString (upper_with_underscores (curveName_value (curveName_choice w))))"
      by blast
    from perform_starts[of w Gnark ctx] obtain rest
      where "fst (perform_scaffolding w Gnark ctx) =
        [Log Info (proceeding_message (directoryPath w)),
         ScaffoldDirectory (js ''common'') (directoryPath w) ctx] @ rest"
      by blast
    with run have "fst (initCommand w) =
        before @
        [?curve, Log Info (proceeding_message (directoryPath w)),
         ScaffoldDirectory (js ''common'') (directoryPath w) ctx] @ rest"
      by simp
    with fields show ?thesis by blast
  qed
  have every_call: "map_of passed (js ''gnarkCurveName'') =
      Some (JString (upper_with_underscores (curveName_value (curveName_choice w))))"
    if call: "ScaffoldDirectory t d passed \<in> set (fst (initCommand w))"
  proof -
    have "?curve \<in> set (fst (initCommand w))"
      using late_event_after_curve_question[OF call] by simp
    from decompose[OF this] obtain before ctx'
      where run: "fst (initCommand w) =
          before @ [?curve] @ fst (perform_scaffolding w Gnark ctx')"
        and calls: "scaffold_calls before = []"
        and field: "map_of ctx' (js ''gnarkCurveName'') =
            Some (JString (upper_with_underscores (curveName_value (curveName_choice w))))"
      by blast
    from call no_scaffold_call[OF calls]
    have "ScaffoldDirectory t d passed \<in> set (fst (perform_scaffolding w Gnark ctx'))"
      by (simp add: run)
    from scaffold_call_in_perform[OF this] field show ?thesis by simp
  qed
  have table: "map (\<lambda>c. gnarkCurveName_of (curveName_value c))
         [Bn254, Bls12_377, Bls12_381, Bls24_315, Bw6_633, Bw6_761] =
       [js ''BN254'', js ''BLS12_377'', js ''BLS12_381'', js ''BLS24_315'', js ''BW6_633'',
        js ''BW6_761'']"
    "gnarkCurveName_of (js ''bls12-377'') = js ''BLS12_377''"
    by (simp_all add: gnarkCurveName_of_def toUpperCase_def js_def)
  have choices: "map snd curveName_choices =
       map curveName_value [Bn254, Bls12_377, Bls12_381, Bls24_315, Bw6_633, Bw6_761]"
    by (simp add: curveName_choices_def)
  show ?thesis
    using gnarkCurveName_values[of c] choices table followed every_call by blast
qed

theorem gnarkCurveName_is_derived_witness:
  "Select (js ''Curve Name:'') (js ''bn254'') curveName_choices
     (curveName_value (curveName_choice example_world)) \<in> set (fst (initCommand example_world))
   \<and> curveName_value (curveName_choice example_world) = js ''bls12-377''
   \<and> upper_with_underscores (curveName_value (curveName_choice example_world)) = js ''BLS12_377''
   \<and> (\<exists>before after context.
          fst (initCommand example_world) =
            before @
            [Select (js ''Curve Name:'') (js ''bn254'') curveName_choices
               (curveName_value (curveName_choice example_world)),
             Log Info (proceeding_message (directoryPath example_world)),
             ScaffoldDirectory (js ''common'') (directoryPath example_world) context] @ after
          \<and> map_of context (js ''curveName'') =
              Some (JString (curveName_value (curveName_choice example_world)))
          \<and> map_of context (js ''gnarkCurveName'') =
              Some (JString
                (upper_with_underscores (curveName_value (curveName_choice example_world)))))
   \<and> ScaffoldDirectory (js ''gnark'') (js ''/work/my circuit'')
        [(js ''circuitName'', JString (js ''my-circuit'')),
         (js ''circuitType'', JString (js ''gnark'')),
         (js ''curveName'', JString (js ''bls12-377'')),
         (js ''gnarkCurveName'', JString (js ''BLS12_377'')),
         (js ''packageName'', JString (js ''circuit2'')),
         (js ''provingScheme'', JString (js ''groth16''))]
        \<in> set (fst (initCommand example_world))
   \<and> map_of
        [(js ''circuitName'', JString (js ''my-circuit'')),
         (js ''circuitType'', JString (js ''gnark'')),
         (js ''curveName'', JString (js ''bls12-377'')),
         (js ''gnarkCurveName'', JString (js ''BLS12_377'')),
         (js ''packageName'', JString (js ''circuit2'')),
         (js ''provingScheme'', JString (js ''groth16''))]
        (js ''gnarkCurveName'') =
      Some (JString (upper_with_underscores (curveName_value (curveName_choice example_world))))"
proof -
  let ?ctx =
    "[(js ''circuitName'', JString (js ''my-circuit'')),
      (js ''circuitType'', JString (js ''gnark'')),
      (js ''curveName'', JString (js ''bls12-377'')),
      (js ''gnarkCurveName'', JString (js ''BLS12_377'')),
      (js ''packageName'', JString (js ''circuit2'')),
      (js ''provingScheme'', JString (js ''groth16''))]"
  have asked: "Select (js ''Curve Name:'') (js ''bn254'') curveName_choices
     (curveName_value (curveName_choice example_world)) \<in> set (fst (initCommand example_world))"
    by (simp add: example_world_def run_defs string_defs js_def)
  have call: "ScaffoldDirectory (js ''gnark'') (js ''/work/my circuit'') ?ctx
      \<in> set (fst (initCommand example_world))"
    by (simp add: example_world_def run_defs string_defs object_assign_def gnarkCurveName_of_def
        toUpperCase_def js_def)
  have curve: "curveName_value (curveName_choice example_world) = js ''bls12-377''"
    by (simp add: example_world_def)
  note derived =
    gnarkCurveName_is_derived[where ?c = "curveName_choice example_world" and ?w = example_world
      and ?t = "js ''gnark''" and ?d = "js ''/work/my circuit''" and ?passed = ?ctx]
  have upper: "upper_with_underscores (curveName_value (curveName_choice example_world)) =
      js ''BLS12_377''"
    using derived unfolding curve by metis
  show ?thesis
    using derived asked call curve upper by blast
qed

lemma scaffold_calls_of_perform:
  "scaffold_calls (fst (perform_scaffolding w t c)) =
     ScaffoldDirectory (js ''common'') (directoryPath w) c #
     (if scaffold_common w then [ScaffoldDirectory (circuitType_value t) (directoryPath w) c]
      else [])"
proof (cases "scaffold_common w")
  case True
  then show ?thesis by (simp add: scaffold_calls_perform)
next
  case False
  then show ?thesis
    by (simp add: perform_scaffolding_def emit_def scaffold_calls_def)
qed

text \<open>
  A scaffolding call whose promise rejects: nothing catches the rejection, so the action
  ends there; a rejected first call leaves the second one unmade, and \<open>.gitkeep\<close> stays.
\<close>

lemma scaffolding_rejection_ends_the_action:
  assumes asked: "Select (js ''Curve Name:'') (js ''bn254'') curveName_choices v
                    \<in> set (fst (initCommand w))"
    and rejected: "\<not> scaffold_common w \<or> \<not> scaffold_circuit w"
  shows "snd (initCommand w) = ScaffoldRejected
    \<and> length (scaffold_calls (fst (initCommand w))) = (if scaffold_common w then 2 else 1)
    \<and> RmSync p \<notin> set (fst (initCommand w))"
proof -
  from reach_scaffolding[OF asked] obtain pre n q
    where calls: "scaffold_calls pre = []"
      and mut: "fs_mutations pre = (if target w = Missing then [MkdirSync (directoryPath w)] else [])"
      and run: "\<And>r1 r2 r3. initCommand (w\<lparr>git_init := r1, git_add := r2, git_commit := r3\<rparr>) =
        emit (pre @ [Select (js ''Curve Name:'') (js ''bn254'') curveName_choices
                     (curveName_value (curveName_choice w))])
          (perform_scaffolding (w\<lparr>git_init := r1, git_add := r2, git_commit := r3\<rparr>) Gnark
             [(js ''circuitName'', JString n), (js ''circuitType'', JString (js ''gnark'')),
              (js ''curveName'', JString (curveName_value (curveName_choice w))),
              (js ''gnarkCurveName'',
               JString (gnarkCurveName_of (curveName_value (curveName_choice w)))),
              (js ''packageName'', JString q),
              (js ''provingScheme'', JString (provingScheme_value (provingScheme_choice w)))])"
    by blast
  have no_rm: "RmSync p \<notin> set pre"
  proof
    assume "RmSync p \<in> set pre"
    then have "RmSync p \<in> set (fs_mutations pre)"
      by (simp add: fs_mutations_def)
    then show False
      by (simp add: mut split: if_splits)
  qed
  show ?thesis
    using run[where ?r1.0 = "git_init w" and ?r2.0 = "git_add w" and ?r3.0 = "git_commit w"]
      rejected calls no_rm
    by (auto simp: perform_scaffolding_def emit_def scaffold_calls_def)
qed


text \<open>
  C8, as the code has it. Once the questions of the Gnark branch are answered,
  \<open>scaffoldDirectory\<close> is called for \<open>common\<close> and, when that call has succeeded, a second
  and last time for \<open>gnark\<close>: two calls in this order when the first succeeds, one call when
  it is rejected. Each call gets the target directory and the whole context: the circuit
  name and the package name that the two text prompts returned, the circuit type, the
  curve, the derived curve name and the proving scheme. A rejected call ends the action
  and nothing is removed. When both calls have succeeded, \<open>.gitkeep\<close> is removed when it
  exists and left alone when it does not, the success is logged either way, and the
  action returns; before the two calls the run has changed nothing in the file system but
  the target directory it made when it was missing, and after the removal it changes
  nothing more.
\<close>

theorem scaffolding_calls_in_order:
  assumes asked: "Select (js ''Curve Name:'') (js ''bn254'') curveName_choices v
                    \<in> set (fst (initCommand w))"
  shows "circuitType_choice w = Gnark \<and>
    (\<exists>circuitName packageName context.
      input_prompt (circuitName_default (directoryName w)) circuitName_validate
        (circuitName_entries w) = Some circuitName
      \<and> input_prompt (packageName_default circuitName) packageName_validate
          (packageName_entries w) = Some packageName
      \<and> Input (js ''Circuit Name:'') (circuitName_default (directoryName w)) (Some circuitName)
          \<in> set (fst (initCommand w))
      \<and> Input (js ''Go Package Name:'') (packageName_default circuitName) (Some packageName)
          \<in> set (fst (initCommand w))
      \<and> context =
        [(js ''circuitName'', JString circuitName),
         (js ''circuitType'', JString (js ''gnark'')),
         (js ''curveName'', JString (curveName_value (curveName_choice w))),
         (js ''gnarkCurveName'', JString (gnarkCurveName_of (curveName_value (curveName_choice w)))),
         (js ''packageName'', JString packageName),
         (js ''provingScheme'', JString (provingScheme_value (provingScheme_choice w)))]
      \<and> scaffold_calls (fst (initCommand w)) =
            ScaffoldDirectory (js ''common'') (directoryPath w) context #
            (if scaffold_common w
             then [ScaffoldDirectory (js ''gnark'') (directoryPath w) context] else [])
      \<and> (\<not> (scaffold_common w \<and> scaffold_circuit w) \<longrightarrow>
            snd (initCommand w) = ScaffoldRejected
            \<and> (\<forall>p. RmSync p \<notin> set (fst (initCommand w))))
      \<and> (scaffold_common w \<and> scaffold_circuit w \<longrightarrow>
            snd (initCommand w) = Returned
            \<and> (\<exists>before after.
                  fst (initCommand w) =
                    before @
                    [ScaffoldDirectory (js ''common'') (directoryPath w) context,
                     ScaffoldDirectory (js ''gnark'') (directoryPath w) context] @
                    (if gitkeep_exists w
                     then [RmSync (path_join (directoryPath w) (js ''.gitkeep''))] else []) @
                    Log Info (js ''Project scaffolding successful.'') # after
                  \<and> fs_mutations before =
                      (if target w = Missing then [MkdirSync (directoryPath w)] else [])
                  \<and> fs_mutations after = [])))"
proof -
  from curve_question_in_collect[OF curve_question_in_initCommand[OF asked]]
    curve_question_in_handle
  have gnark: "circuitType_choice w = Gnark" by blast
  let ?curve = "Select (js ''Curve Name:'') (js ''bn254'') curveName_choices
                     (curveName_value (curveName_choice w))"
  from reach_scaffolding[OF asked] obtain pre n p
    where calls: "scaffold_calls pre = []"
      and mut: "fs_mutations pre = (if target w = Missing then [MkdirSync (directoryPath w)] else [])"
      and name: "input_prompt (circuitName_default (directoryName w)) circuitName_validate
            (circuitName_entries w) = Some n"
      and package: "input_prompt (packageName_default n) packageName_validate
            (packageName_entries w) = Some p"
      and name_asked: "Input (js ''Circuit Name:'') (circuitName_default (directoryName w)) (Some n)
            \<in> set pre"
      and package_asked: "Input (js ''Go Package Name:'') (packageName_default n) (Some p)
            \<in> set pre"
      and run: "\<And>r1 r2 r3. initCommand (w\<lparr>git_init := r1, git_add := r2, git_commit := r3\<rparr>) =
        emit (pre @ [?curve])
          (perform_scaffolding (w\<lparr>git_init := r1, git_add := r2, git_commit := r3\<rparr>) Gnark
             [(js ''circuitName'', JString n), (js ''circuitType'', JString (js ''gnark'')),
              (js ''curveName'', JString (curveName_value (curveName_choice w))),
              (js ''gnarkCurveName'',
               JString (gnarkCurveName_of (curveName_value (curveName_choice w)))),
              (js ''packageName'', JString p),
              (js ''provingScheme'', JString (provingScheme_value (provingScheme_choice w)))])"
    by blast
  let ?ctx =
     "[(js ''circuitName'', JString n), (js ''circuitType'', JString (js ''gnark'')),
       (js ''curveName'', JString (curveName_value (curveName_choice w))),
       (js ''gnarkCurveName'', JString (gnarkCurveName_of (curveName_value (curveName_choice w)))),
       (js ''packageName'', JString p),
       (js ''provingScheme'', JString (provingScheme_value (provingScheme_choice w)))]"
  have here: "initCommand w = emit (pre @ [?curve]) (perform_scaffolding w Gnark ?ctx)"
    using run[where ?r1.0 = "git_init w" and ?r2.0 = "git_add w" and ?r3.0 = "git_commit w"] by simp
  have asked_both:
    "Input (js ''Circuit Name:'') (circuitName_default (directoryName w)) (Some n)
       \<in> set (fst (initCommand w))"
    "Input (js ''Go Package Name:'') (packageName_default n) (Some p)
       \<in> set (fst (initCommand w))"
    using name_asked package_asked by (simp_all add: here fst_emit)
  have calls': "scaffold_calls (pre @ [?curve]) = []"
    using calls by (simp add: scaffold_calls_def)
  have order: "scaffold_calls (fst (initCommand w)) =
      ScaffoldDirectory (js ''common'') (directoryPath w) ?ctx #
      (if scaffold_common w
       then [ScaffoldDirectory (js ''gnark'') (directoryPath w) ?ctx] else [])"
  proof -
    have "scaffold_calls (fst (initCommand w)) =
        scaffold_calls (pre @ [?curve]) @
        scaffold_calls (fst (perform_scaffolding w Gnark ?ctx))"
      by (simp only: here fst_emit scaffold_calls_append)
    then show ?thesis
      by (simp only: calls' scaffold_calls_of_perform) simp
  qed
  have rejected: "snd (initCommand w) = ScaffoldRejected
      \<and> (\<forall>p. RmSync p \<notin> set (fst (initCommand w)))"
    if "\<not> (scaffold_common w \<and> scaffold_circuit w)"
  proof -
    from that have "\<not> scaffold_common w \<or> \<not> scaffold_circuit w" by simp
    from scaffolding_rejection_ends_the_action[OF asked this] show ?thesis by blast
  qed
  have after: "snd (initCommand w) = Returned
      \<and> (\<exists>before after.
            fst (initCommand w) =
              before @
              [ScaffoldDirectory (js ''common'') (directoryPath w) ?ctx,
               ScaffoldDirectory (js ''gnark'') (directoryPath w) ?ctx] @
              (if gitkeep_exists w
               then [RmSync (path_join (directoryPath w) (js ''.gitkeep''))] else []) @
              Log Info (js ''Project scaffolding successful.'') # after
            \<and> fs_mutations before =
                (if target w = Missing then [MkdirSync (directoryPath w)] else [])
            \<and> fs_mutations after = [])"
    if ok: "scaffold_common w \<and> scaffold_circuit w"
  proof
    from ok have ok': "scaffold_common w" "scaffold_circuit w" by simp_all
    show "snd (initCommand w) = Returned"
      by (simp add: here snd_emit perform_scaffolding_ok[OF ok'] snd_initialize_git)
    have "fs_mutations (pre @ [?curve, Log Info (proceeding_message (directoryPath w))]) =
        (if target w = Missing then [MkdirSync (directoryPath w)] else [])"
      using mut by (simp add: fs_mutations_def)
    moreover have "fst (initCommand w) =
        (pre @ [?curve, Log Info (proceeding_message (directoryPath w))]) @
        [ScaffoldDirectory (js ''common'') (directoryPath w) ?ctx,
         ScaffoldDirectory (js ''gnark'') (directoryPath w) ?ctx] @
        (if gitkeep_exists w
         then [RmSync (path_join (directoryPath w) (js ''.gitkeep''))] else []) @
        Log Info (js ''Project scaffolding successful.'') # fst (initialize_git w)"
      by (simp add: here fst_emit perform_scaffolding_ok[OF ok'])
    ultimately show "\<exists>before after.
            fst (initCommand w) =
              before @
              [ScaffoldDirectory (js ''common'') (directoryPath w) ?ctx,
               ScaffoldDirectory (js ''gnark'') (directoryPath w) ?ctx] @
              (if gitkeep_exists w
               then [RmSync (path_join (directoryPath w) (js ''.gitkeep''))] else []) @
              Log Info (js ''Project scaffolding successful.'') # after
            \<and> fs_mutations before =
                (if target w = Missing then [MkdirSync (directoryPath w)] else [])
            \<and> fs_mutations after = []"
      using fs_mutations_initialize_git[of w] by blast
  qed
  have "\<exists>circuitName packageName context.
      input_prompt (circuitName_default (directoryName w)) circuitName_validate
        (circuitName_entries w) = Some circuitName
      \<and> input_prompt (packageName_default circuitName) packageName_validate
          (packageName_entries w) = Some packageName
      \<and> Input (js ''Circuit Name:'') (circuitName_default (directoryName w)) (Some circuitName)
          \<in> set (fst (initCommand w))
      \<and> Input (js ''Go Package Name:'') (packageName_default circuitName) (Some packageName)
          \<in> set (fst (initCommand w))
      \<and> context =
        [(js ''circuitName'', JString circuitName),
         (js ''circuitType'', JString (js ''gnark'')),
         (js ''curveName'', JString (curveName_value (curveName_choice w))),
         (js ''gnarkCurveName'', JString (gnarkCurveName_of (curveName_value (curveName_choice w)))),
         (js ''packageName'', JString packageName),
         (js ''provingScheme'', JString (provingScheme_value (provingScheme_choice w)))]
      \<and> scaffold_calls (fst (initCommand w)) =
            ScaffoldDirectory (js ''common'') (directoryPath w) context #
            (if scaffold_common w
             then [ScaffoldDirectory (js ''gnark'') (directoryPath w) context] else [])
      \<and> (\<not> (scaffold_common w \<and> scaffold_circuit w) \<longrightarrow>
            snd (initCommand w) = ScaffoldRejected
            \<and> (\<forall>p. RmSync p \<notin> set (fst (initCommand w))))
      \<and> (scaffold_common w \<and> scaffold_circuit w \<longrightarrow>
            snd (initCommand w) = Returned
            \<and> (\<exists>before after.
                  fst (initCommand w) =
                    before @
                    [ScaffoldDirectory (js ''common'') (directoryPath w) context,
                     ScaffoldDirectory (js ''gnark'') (directoryPath w) context] @
                    (if gitkeep_exists w
                     then [RmSync (path_join (directoryPath w) (js ''.gitkeep''))] else []) @
                    Log Info (js ''Project scaffolding successful.'') # after
                  \<and> fs_mutations before =
                      (if target w = Missing then [MkdirSync (directoryPath w)] else [])
                  \<and> fs_mutations after = []))"
    apply (rule exI[of _ n], rule exI[of _ p], rule exI[of _ ?ctx])
    apply (intro conjI impI)
           apply (rule name package asked_both refl order)+
       apply (drule rejected, erule conjunct1)
      apply (drule rejected, erule conjunct2)
     apply (drule after, erule conjunct1)
    apply (drule after, erule conjunct2)
    done
  with gnark show ?thesis by (rule conjI)
qed

theorem scaffolding_calls_in_order_witness:
  "Select (js ''Curve Name:'') (js ''bn254'') curveName_choices (js ''bls12-377'')
     \<in> set (fst (initCommand example_world))
   \<and> scaffold_common example_world \<and> scaffold_circuit example_world
   \<and> circuitType_choice example_world = Gnark
   \<and> input_prompt (circuitName_default (directoryName example_world)) circuitName_validate
        (circuitName_entries example_world) = Some (js ''my-circuit'')
   \<and> input_prompt (packageName_default (js ''my-circuit'')) packageName_validate
        (packageName_entries example_world) = Some (js ''circuit2'')
   \<and> scaffold_calls (fst (initCommand example_world)) =
        [ScaffoldDirectory (js ''common'') (directoryPath example_world)
           [(js ''circuitName'', JString (js ''my-circuit'')),
            (js ''circuitType'', JString (js ''gnark'')),
            (js ''curveName'', JString (curveName_value (curveName_choice example_world))),
            (js ''gnarkCurveName'',
             JString (gnarkCurveName_of (curveName_value (curveName_choice example_world)))),
            (js ''packageName'', JString (js ''circuit2'')),
            (js ''provingScheme'',
             JString (provingScheme_value (provingScheme_choice example_world)))],
         ScaffoldDirectory (js ''gnark'') (directoryPath example_world)
           [(js ''circuitName'', JString (js ''my-circuit'')),
            (js ''circuitType'', JString (js ''gnark'')),
            (js ''curveName'', JString (curveName_value (curveName_choice example_world))),
            (js ''gnarkCurveName'',
             JString (gnarkCurveName_of (curveName_value (curveName_choice example_world)))),
            (js ''packageName'', JString (js ''circuit2'')),
            (js ''provingScheme'',
             JString (provingScheme_value (provingScheme_choice example_world)))]]
   \<and> snd (initCommand example_world) = Returned
   \<and> (\<exists>before after.
         fst (initCommand example_world) =
           before @
           [ScaffoldDirectory (js ''common'') (directoryPath example_world)
              [(js ''circuitName'', JString (js ''my-circuit'')),
               (js ''circuitType'', JString (js ''gnark'')),
               (js ''curveName'', JString (curveName_value (curveName_choice example_world))),
               (js ''gnarkCurveName'',
                JString (gnarkCurveName_of (curveName_value (curveName_choice example_world)))),
               (js ''packageName'', JString (js ''circuit2'')),
               (js ''provingScheme'',
                JString (provingScheme_value (provingScheme_choice example_world)))],
            ScaffoldDirectory (js ''gnark'') (directoryPath example_world)
              [(js ''circuitName'', JString (js ''my-circuit'')),
               (js ''circuitType'', JString (js ''gnark'')),
               (js ''curveName'', JString (curveName_value (curveName_choice example_world))),
               (js ''gnarkCurveName'',
                JString (gnarkCurveName_of (curveName_value (curveName_choice example_world)))),
               (js ''packageName'', JString (js ''circuit2'')),
               (js ''provingScheme'',
                JString (provingScheme_value (provingScheme_choice example_world)))]] @
           (if gitkeep_exists example_world
            then [RmSync (path_join (directoryPath example_world) (js ''.gitkeep''))] else []) @
           Log Info (js ''Project scaffolding successful.'') # after
         \<and> fs_mutations before =
             (if target example_world = Missing
              then [MkdirSync (directoryPath example_world)] else [])
         \<and> fs_mutations after = [])
   \<and> gitkeep_exists example_world
   \<and> RmSync (js ''/work/my circuit/.gitkeep'') \<in> set (fst (initCommand example_world))
   \<and> Select (js ''Curve Name:'') (js ''bn254'') curveName_choices (js ''bls12-377'')
        \<in> set (fst (initCommand (example_world\<lparr>scaffold_common := False\<rparr>)))
   \<and> \<not> (scaffold_common (example_world\<lparr>scaffold_common := False\<rparr>)
          \<and> scaffold_circuit (example_world\<lparr>scaffold_common := False\<rparr>))
   \<and> snd (initCommand (example_world\<lparr>scaffold_common := False\<rparr>)) = ScaffoldRejected
   \<and> (\<forall>p. RmSync p \<notin> set (fst (initCommand (example_world\<lparr>scaffold_common := False\<rparr>))))"
proof -
  let ?rejecting = "example_world\<lparr>scaffold_common := False\<rparr>"
  have asked: "Select (js ''Curve Name:'') (js ''bn254'') curveName_choices (js ''bls12-377'')
     \<in> set (fst (initCommand example_world))"
    by (simp add: example_world_def run_defs string_defs js_def)
  have asked': "Select (js ''Curve Name:'') (js ''bn254'') curveName_choices (js ''bls12-377'')
     \<in> set (fst (initCommand ?rejecting))"
    by (simp add: example_world_def run_defs string_defs js_def)
  have ok: "scaffold_common example_world \<and> scaffold_circuit example_world"
    by (simp add: example_world_def)
  have ok1: "scaffold_common example_world" and ok2: "scaffold_circuit example_world"
    and kept: "gitkeep_exists example_world"
    by (simp_all add: example_world_def)
  have not_ok: "\<not> (scaffold_common ?rejecting \<and> scaffold_circuit ?rejecting)"
    by simp
  have removed: "RmSync (js ''/work/my circuit/.gitkeep'') \<in> set (fst (initCommand example_world))"
    by (simp add: example_world_def run_defs string_defs path_join_def js_def)
  have name: "input_prompt (circuitName_default (directoryName example_world)) circuitName_validate
        (circuitName_entries example_world) = Some (js ''my-circuit'')"
    by (simp add: example_world_def string_defs js_def)
  have package: "input_prompt (packageName_default (js ''my-circuit'')) packageName_validate
        (packageName_entries example_world) = Some (js ''circuit2'')"
    by (simp add: example_world_def string_defs js_def)
  note accepted = scaffolding_calls_in_order[OF asked]
  note gnark = accepted[THEN conjunct1]
  from accepted[THEN conjunct2] obtain n p ctx
    where n: "input_prompt (circuitName_default (directoryName example_world)) circuitName_validate
        (circuitName_entries example_world) = Some n"
      and p: "input_prompt (packageName_default n) packageName_validate
        (packageName_entries example_world) = Some p"
      and ctx: "ctx =
        [(js ''circuitName'', JString n),
         (js ''circuitType'', JString (js ''gnark'')),
         (js ''curveName'', JString (curveName_value (curveName_choice example_world))),
         (js ''gnarkCurveName'',
          JString (gnarkCurveName_of (curveName_value (curveName_choice example_world)))),
         (js ''packageName'', JString p),
         (js ''provingScheme'', JString (provingScheme_value (provingScheme_choice example_world)))]"
      and order: "scaffold_calls (fst (initCommand example_world)) =
            ScaffoldDirectory (js ''common'') (directoryPath example_world) ctx #
            (if scaffold_common example_world
             then [ScaffoldDirectory (js ''gnark'') (directoryPath example_world) ctx] else [])"
      and after: "scaffold_common example_world \<and> scaffold_circuit example_world \<longrightarrow>
            snd (initCommand example_world) = Returned
            \<and> (\<exists>before after.
                  fst (initCommand example_world) =
                    before @
                    [ScaffoldDirectory (js ''common'') (directoryPath example_world) ctx,
                     ScaffoldDirectory (js ''gnark'') (directoryPath example_world) ctx] @
                    (if gitkeep_exists example_world
                     then [RmSync (path_join (directoryPath example_world) (js ''.gitkeep''))]
                     else []) @
                    Log Info (js ''Project scaffolding successful.'') # after
                  \<and> fs_mutations before =
                      (if target example_world = Missing
                       then [MkdirSync (directoryPath example_world)] else [])
                  \<and> fs_mutations after = [])"
    by (elim exE conjE)
  have n_is: "n = js ''my-circuit''"
    using n name by simp
  have p_is: "p = js ''circuit2''"
    using p package unfolding n_is by simp
  note ctx_is = ctx[unfolded n_is p_is]
  note order' = order[unfolded ctx_is, unfolded if_P[OF ok1]]
  note after' = after[unfolded ctx_is, THEN mp, OF ok]
  from scaffolding_calls_in_order[OF asked', THEN conjunct2] obtain n' p' ctx'
    where rejected: "\<not> (scaffold_common ?rejecting \<and> scaffold_circuit ?rejecting) \<longrightarrow>
            snd (initCommand ?rejecting) = ScaffoldRejected
            \<and> (\<forall>p. RmSync p \<notin> set (fst (initCommand ?rejecting)))"
    by (elim exE conjE)
  note rejected' = rejected[THEN mp, OF not_ok]
  show ?thesis
    by (intro conjI)
      (rule asked ok1 ok2 gnark name package order' after'[THEN conjunct1]
        after'[THEN conjunct2] kept removed asked' not_ok rejected'[THEN conjunct1]
        rejected'[THEN conjunct2])+
qed

text \<open>
  C8, the count. ``Invoked exactly twice'' does not hold when the first call is rejected:
  in the sample run with a rejected \<open>common\<close> call the Gnark questions are answered and
  \<open>scaffoldDirectory\<close> is called once.
\<close>

theorem scaffolding_once_when_first_call_rejects:
  "Select (js ''Curve Name:'') (js ''bn254'') curveName_choices (js ''bls12-377'')
     \<in> set (fst (initCommand (example_world\<lparr>scaffold_common := False\<rparr>)))
   \<and> circuitType_choice (example_world\<lparr>scaffold_common := False\<rparr>) = Gnark
   \<and> scaffold_calls (fst (initCommand (example_world\<lparr>scaffold_common := False\<rparr>))) =
        [ScaffoldDirectory (js ''common'') (js ''/work/my circuit'')
           [(js ''circuitName'', JString (js ''my-circuit'')),
            (js ''circuitType'', JString (js ''gnark'')),
            (js ''curveName'', JString (js ''bls12-377'')),
            (js ''gnarkCurveName'', JString (js ''BLS12_377'')),
            (js ''packageName'', JString (js ''circuit2'')),
            (js ''provingScheme'', JString (js ''groth16''))]]
   \<and> length (scaffold_calls (fst (initCommand (example_world\<lparr>scaffold_common := False\<rparr>)))) \<noteq> 2
   \<and> snd (initCommand (example_world\<lparr>scaffold_common := False\<rparr>)) = ScaffoldRejected"
  by (simp add: example_world_def run_defs string_defs scaffold_calls_def object_assign_def
      gnarkCurveName_of_def toUpperCase_def js_def)

lemma truncated_keys:
  "map_of (truncate_noisy error) key =
     (if (key = js ''output'' \<or> key = js ''stderr'' \<or> key = js ''stdout'') \<and> has_key key error
      then Some (JString (js ''<truncated>'')) else map_of error key)"
  by (simp add: has_truncated noisyKeys_def)

text \<open>
  C9. When \<open>git init\<close> has been run, everything the action did before it and the way the
  action ends do not depend on how \<open>git init\<close>, \<open>git add\<close> and \<open>git commit\<close> turn out:
  the action returns, and the commands are followed by log calls only. The first command
  that throws ends the \<open>try\<close> block, and the run then ends with the two error logs: the
  message, and the error object, in which each of the keys \<open>output\<close>, \<open>stderr\<close> and
  \<open>stdout\<close> that the error has holds the string \<open><truncated>\<close>, every other key keeps its
  value and no key is added.
\<close>

theorem git_failure_is_contained:
  assumes ran: "ExecSync (js ''git init .'') (Some (directoryPath w)) \<in> set (fst (initCommand w))"
  shows "(\<exists>before. \<forall>r1 r2 r3.
            initCommand (w\<lparr>git_init := r1, git_add := r2, git_commit := r3\<rparr>) =
              (before @ try_git_commands (w\<lparr>git_init := r1, git_add := r2, git_commit := r3\<rparr>),
               Returned))
    \<and> (\<forall>w'. fs_mutations (try_git_commands w') = [])
    \<and> (\<forall>w' error.
          (git_init w' = Throws error \<longrightarrow>
             try_git_commands w' =
               [ExecSync (js ''git init .'') (Some (directoryPath w'))] @ catch_git_error error)
        \<and> (git_init w' = Succeeds \<and> git_add w' = Throws error \<longrightarrow>
             try_git_commands w' =
               [ExecSync (js ''git init .'') (Some (directoryPath w')),
                ExecSync (js ''git add .'') (Some (directoryPath w'))] @ catch_git_error error)
        \<and> (git_init w' = Succeeds \<and> git_add w' = Succeeds \<and> git_commit w' = Throws error \<longrightarrow>
             try_git_commands w' =
               [ExecSync (js ''git init .'') (Some (directoryPath w')),
                ExecSync (js ''git add .'') (Some (directoryPath w')),
                ExecSync git_commit_command (Some (directoryPath w'))] @ catch_git_error error))
    \<and> (\<forall>error. catch_git_error error =
          [Log Error (js ''Error occurred while initializing the git repository.''),
           LogObject Error (truncate_noisy error)])
    \<and> (\<forall>error.
          git_init w = Throws error
          \<or> git_init w = Succeeds \<and> git_add w = Throws error
          \<or> git_init w = Succeeds \<and> git_add w = Succeeds \<and> git_commit w = Throws error \<longrightarrow>
          snd (initCommand w) = Returned
          \<and> (\<exists>before logged.
                fst (initCommand w) =
                  before @
                  [Log Error (js ''Error occurred while initializing the git repository.''),
                   LogObject Error logged]
                \<and> (has_key (js ''output'') error \<longrightarrow>
                      map_of logged (js ''output'') = Some (JString (js ''<truncated>'')))
                \<and> (has_key (js ''stderr'') error \<longrightarrow>
                      map_of logged (js ''stderr'') = Some (JString (js ''<truncated>'')))
                \<and> (has_key (js ''stdout'') error \<longrightarrow>
                      map_of logged (js ''stdout'') = Some (JString (js ''<truncated>'')))
                \<and> (\<forall>key. key \<noteq> js ''output'' \<and> key \<noteq> js ''stderr'' \<and> key \<noteq> js ''stdout'' \<longrightarrow>
                      map_of logged key = map_of error key)
                \<and> map fst logged = map fst error))
    \<and> (\<forall>error key. map_of (truncate_noisy error) key =
          (if (key = js ''output'' \<or> key = js ''stderr'' \<or> key = js ''stdout'')
              \<and> has_key key error
           then Some (JString (js ''<truncated>'')) else map_of error key))
    \<and> (\<forall>error. map fst (truncate_noisy error) = map fst error)"
proof -
  let ?curve = "Select (js ''Curve Name:'') (js ''bn254'') curveName_choices
                     (curveName_value (curveName_choice w))"
  have asked: "?curve \<in> set (fst (initCommand w))"
    using late_event_after_curve_question[OF ran] by simp
  from reach_scaffolding[OF asked] obtain pre n p
    where run: "\<And>r1 r2 r3. initCommand (w\<lparr>git_init := r1, git_add := r2, git_commit := r3\<rparr>) =
        emit (pre @ [?curve])
          (perform_scaffolding (w\<lparr>git_init := r1, git_add := r2, git_commit := r3\<rparr>) Gnark
             [(js ''circuitName'', JString n), (js ''circuitType'', JString (js ''gnark'')),
              (js ''curveName'', JString (curveName_value (curveName_choice w))),
              (js ''gnarkCurveName'',
               JString (gnarkCurveName_of (curveName_value (curveName_choice w)))),
              (js ''packageName'', JString p),
              (js ''provingScheme'', JString (provingScheme_value (provingScheme_choice w)))])"
      and noexec: "\<And>g c. ExecSync g c \<notin> set pre"
    by blast
  let ?ctx =
     "[(js ''circuitName'', JString n), (js ''circuitType'', JString (js ''gnark'')),
       (js ''curveName'', JString (curveName_value (curveName_choice w))),
       (js ''gnarkCurveName'', JString (gnarkCurveName_of (curveName_value (curveName_choice w)))),
       (js ''packageName'', JString p),
       (js ''provingScheme'', JString (provingScheme_value (provingScheme_choice w)))]"
  have here: "initCommand w = emit (pre @ [?curve]) (perform_scaffolding w Gnark ?ctx)"
    using run[where ?r1.0 = "git_init w" and ?r2.0 = "git_add w" and ?r3.0 = "git_commit w"]
    by simp
  have "ExecSync (js ''git init .'') (Some (directoryPath w))
          \<in> set (fst (perform_scaffolding w Gnark ?ctx))"
    using ran noexec by (simp add: here fst_emit)
  from exec_in_perform[OF this] exec_in_initialize_git
  have ok: "scaffold_common w" "scaffold_circuit w"
    and git: "git_version w = Succeeds" "\<not> dot_git_exists w" "initializeGit_answer w"
    by blast+
  let ?before =
    "(pre @ [?curve]) @
     ([Log Info (proceeding_message (directoryPath w)),
       ScaffoldDirectory (js ''common'') (directoryPath w) ?ctx,
       ScaffoldDirectory (circuitType_value Gnark) (directoryPath w) ?ctx] @
      (if gitkeep_exists w then [RmSync (path_join (directoryPath w) (js ''.gitkeep''))] else []) @
      [Log Info (js ''Project scaffolding successful.'')]) @
     [ExecSync (js ''git --version'') None,
      Confirm (initialize_question (directoryPath w)) True True,
      Log Info (initializing_message (directoryPath w))]"
  have whole: "initCommand (w\<lparr>git_init := r1, git_add := r2, git_commit := r3\<rparr>) =
      (?before @ try_git_commands (w\<lparr>git_init := r1, git_add := r2, git_commit := r3\<rparr>), Returned)"
    for r1 r2 r3
  proof -
    let ?w = "w\<lparr>git_init := r1, git_add := r2, git_commit := r3\<rparr>"
    have "scaffold_common ?w" "scaffold_circuit ?w"
      and "git_version ?w = Succeeds" "\<not> dot_git_exists ?w" "initializeGit_answer ?w"
      using ok git by simp_all
    from perform_scaffolding_ok[OF this(1,2)] initialize_git_run[OF this(3,4,5)]
    show ?thesis by (simp add: run emit_def)
  qed
  then have first: "\<exists>before. \<forall>r1 r2 r3.
      initCommand (w\<lparr>git_init := r1, git_add := r2, git_commit := r3\<rparr>) =
        (before @ try_git_commands (w\<lparr>git_init := r1, git_add := r2, git_commit := r3\<rparr>),
         Returned)"
    by blast
  have throws: "(git_init w' = Throws error \<longrightarrow>
             try_git_commands w' =
               [ExecSync (js ''git init .'') (Some (directoryPath w'))] @ catch_git_error error)
        \<and> (git_init w' = Succeeds \<and> git_add w' = Throws error \<longrightarrow>
             try_git_commands w' =
               [ExecSync (js ''git init .'') (Some (directoryPath w')),
                ExecSync (js ''git add .'') (Some (directoryPath w'))] @ catch_git_error error)
        \<and> (git_init w' = Succeeds \<and> git_add w' = Succeeds \<and> git_commit w' = Throws error \<longrightarrow>
             try_git_commands w' =
               [ExecSync (js ''git init .'') (Some (directoryPath w')),
                ExecSync (js ''git add .'') (Some (directoryPath w')),
                ExecSync git_commit_command (Some (directoryPath w'))] @ catch_git_error error)"
    for w' :: world and error
    by (simp add: try_git_commands_def Let_def)
  have failed: "snd (initCommand w) = Returned
      \<and> (\<exists>before logged.
            fst (initCommand w) =
              before @
              [Log Error (js ''Error occurred while initializing the git repository.''),
               LogObject Error logged]
            \<and> (has_key (js ''output'') error \<longrightarrow>
                  map_of logged (js ''output'') = Some (JString (js ''<truncated>'')))
            \<and> (has_key (js ''stderr'') error \<longrightarrow>
                  map_of logged (js ''stderr'') = Some (JString (js ''<truncated>'')))
            \<and> (has_key (js ''stdout'') error \<longrightarrow>
                  map_of logged (js ''stdout'') = Some (JString (js ''<truncated>'')))
            \<and> (\<forall>key. key \<noteq> js ''output'' \<and> key \<noteq> js ''stderr'' \<and> key \<noteq> js ''stdout'' \<longrightarrow>
                  map_of logged key = map_of error key)
            \<and> map fst logged = map fst error)"
    if thrown: "git_init w = Throws error
          \<or> git_init w = Succeeds \<and> git_add w = Throws error
          \<or> git_init w = Succeeds \<and> git_add w = Succeeds \<and> git_commit w = Throws error"
    for error
  proof -
    have here: "initCommand w = (?before @ try_git_commands w, Returned)"
      using whole[where ?r1.0 = "git_init w" and ?r2.0 = "git_add w" and ?r3.0 = "git_commit w"]
      by simp
    from thrown throws[of w error] obtain commands
      where "try_git_commands w = commands @ catch_git_error error"
      by blast
    then have "fst (initCommand w) =
        (?before @ commands) @
        [Log Error (js ''Error occurred while initializing the git repository.''),
         LogObject Error (truncate_noisy error)]"
      by (simp add: here catch_git_error_def)
    moreover have "has_key (js ''output'') error \<longrightarrow>
        map_of (truncate_noisy error) (js ''output'') = Some (JString (js ''<truncated>''))"
      "has_key (js ''stderr'') error \<longrightarrow>
        map_of (truncate_noisy error) (js ''stderr'') = Some (JString (js ''<truncated>''))"
      "has_key (js ''stdout'') error \<longrightarrow>
        map_of (truncate_noisy error) (js ''stdout'') = Some (JString (js ''<truncated>''))"
      "\<forall>key. key \<noteq> js ''output'' \<and> key \<noteq> js ''stderr'' \<and> key \<noteq> js ''stdout'' \<longrightarrow>
        map_of (truncate_noisy error) key = map_of error key"
      by (simp_all add: truncated_keys)
    moreover note truncate_keeps_keys[of error]
    moreover have "snd (initCommand w) = Returned"
      by (simp add: here)
    ultimately show ?thesis by blast
  qed
  have caught: "\<forall>error. catch_git_error error =
          [Log Error (js ''Error occurred while initializing the git repository.''),
           LogObject Error (truncate_noisy error)]"
    by (simp add: catch_git_error_def)
  show ?thesis
    apply (intro conjI allI impI)
                 apply (rule first)
                apply (rule fs_mutations_try)
               apply (simp add: throws)
              apply (simp add: throws)
             apply (simp add: throws)
            apply (rule caught[THEN spec])
           apply (drule failed, erule conjunct1)
          apply (drule failed, erule conjunct2)
         apply (rule truncated_keys)
        apply (rule truncate_keeps_keys)
    done
qed

theorem git_failure_is_contained_witness:
  "ExecSync (js ''git init .'') (Some (directoryPath example_world))
     \<in> set (fst (initCommand example_world))
   \<and> (\<exists>before. \<forall>r1 r2 r3.
          initCommand (example_world\<lparr>git_init := r1, git_add := r2, git_commit := r3\<rparr>) =
            (before @
             try_git_commands (example_world\<lparr>git_init := r1, git_add := r2, git_commit := r3\<rparr>),
             Returned))
   \<and> snd (initCommand example_world) = Returned
   \<and> git_init example_world = Succeeds \<and> git_add example_world = Succeeds
   \<and> git_commit example_world = Throws example_error
   \<and> try_git_commands example_world =
        [ExecSync (js ''git init .'') (Some (directoryPath example_world)),
         ExecSync (js ''git add .'') (Some (directoryPath example_world)),
         ExecSync git_commit_command (Some (directoryPath example_world))] @
        catch_git_error example_error
   \<and> has_key (js ''output'') example_error
   \<and> has_key (js ''stderr'') example_error
   \<and> has_key (js ''stdout'') example_error
   \<and> (\<exists>before logged.
         fst (initCommand example_world) =
           before @
           [Log Error (js ''Error occurred while initializing the git repository.''),
            LogObject Error logged]
         \<and> map_of logged (js ''output'') = Some (JString (js ''<truncated>''))
         \<and> map_of logged (js ''stderr'') = Some (JString (js ''<truncated>''))
         \<and> map_of logged (js ''stdout'') = Some (JString (js ''<truncated>''))
         \<and> map_of logged (js ''status'') = Some (JNumber 128)
         \<and> map fst logged = map fst example_error)
   \<and> truncate_noisy example_error =
        [(js ''status'', JNumber 128), (js ''signal'', JNull),
         (js ''output'', JString (js ''<truncated>'')),
         (js ''pid'', JNumber 4242), (js ''stdout'', JString (js ''<truncated>'')),
         (js ''stderr'', JString (js ''<truncated>''))]
   \<and> LogObject Error
        [(js ''status'', JNumber 128), (js ''signal'', JNull),
         (js ''output'', JString (js ''<truncated>'')),
         (js ''pid'', JNumber 4242), (js ''stdout'', JString (js ''<truncated>'')),
         (js ''stderr'', JString (js ''<truncated>''))]
        \<in> set (fst (initCommand example_world))"
proof -
  have ran: "ExecSync (js ''git init .'') (Some (directoryPath example_world))
     \<in> set (fst (initCommand example_world))"
    by (simp add: example_world_def run_defs string_defs js_def)
  have results: "git_init example_world = Succeeds" "git_add example_world = Succeeds"
    "git_commit example_world = Throws example_error"
    by (simp_all add: example_world_def)
  have thrown: "git_init example_world = Throws example_error
      \<or> git_init example_world = Succeeds \<and> git_add example_world = Throws example_error
      \<or> git_init example_world = Succeeds \<and> git_add example_world = Succeeds
          \<and> git_commit example_world = Throws example_error"
    using results by simp
  have noisy: "has_key (js ''output'') example_error" "has_key (js ''stderr'') example_error"
    "has_key (js ''stdout'') example_error"
    by (simp_all add: example_error_def has_key_def js_def)
  have quiet: "js ''status'' \<noteq> js ''output'' \<and> js ''status'' \<noteq> js ''stderr''
      \<and> js ''status'' \<noteq> js ''stdout''"
    by (simp add: js_def)
  have status: "map_of example_error (js ''status'') = Some (JNumber 128)"
    by (simp add: example_error_def)
  have truncated: "truncate_noisy example_error =
        [(js ''status'', JNumber 128), (js ''signal'', JNull),
         (js ''output'', JString (js ''<truncated>'')),
         (js ''pid'', JNumber 4242), (js ''stdout'', JString (js ''<truncated>'')),
         (js ''stderr'', JString (js ''<truncated>''))]"
    by (simp add: truncate_noisy_def noisyKeys_def example_error_def has_key_def js_def)
  have logged_last: "LogObject Error
        [(js ''status'', JNumber 128), (js ''signal'', JNull),
         (js ''output'', JString (js ''<truncated>'')),
         (js ''pid'', JNumber 4242), (js ''stdout'', JString (js ''<truncated>'')),
         (js ''stderr'', JString (js ''<truncated>''))]
        \<in> set (fst (initCommand example_world))"
    by (simp add: example_world_def run_defs string_defs truncate_noisy_def noisyKeys_def
        example_error_def has_key_def js_def)
  note contained = git_failure_is_contained[OF ran]
  note before_git = contained[THEN conjunct1]
  note commit_throws =
    contained[THEN conjunct2, THEN conjunct2, THEN conjunct1, THEN spec, THEN spec,
      THEN conjunct2, THEN conjunct2, THEN mp]
  note run_level =
    contained[THEN conjunct2, THEN conjunct2, THEN conjunct2, THEN conjunct2, THEN conjunct1,
      THEN spec, THEN mp, OF thrown]
  note returned = run_level[THEN conjunct1]
  have tried: "try_git_commands example_world =
        [ExecSync (js ''git init .'') (Some (directoryPath example_world)),
         ExecSync (js ''git add .'') (Some (directoryPath example_world)),
         ExecSync git_commit_command (Some (directoryPath example_world))] @
        catch_git_error example_error"
    using commit_throws[of example_world example_error] results
    by (simp only: simp_thms)
  from run_level[THEN conjunct2] obtain before logged
    where trace: "fst (initCommand example_world) =
           before @
           [Log Error (js ''Error occurred while initializing the git repository.''),
            LogObject Error logged]"
      and out: "has_key (js ''output'') example_error \<longrightarrow>
            map_of logged (js ''output'') = Some (JString (js ''<truncated>''))"
      and err: "has_key (js ''stderr'') example_error \<longrightarrow>
            map_of logged (js ''stderr'') = Some (JString (js ''<truncated>''))"
      and std: "has_key (js ''stdout'') example_error \<longrightarrow>
            map_of logged (js ''stdout'') = Some (JString (js ''<truncated>''))"
      and others: "\<forall>key. key \<noteq> js ''output'' \<and> key \<noteq> js ''stderr'' \<and> key \<noteq> js ''stdout'' \<longrightarrow>
            map_of logged key = map_of example_error key"
      and keys: "map fst logged = map fst example_error"
    by (elim exE conjE)
  have kept: "map_of logged (js ''status'') = Some (JNumber 128)"
    using others[THEN spec, THEN mp, OF quiet] status by simp
  have logged: "\<exists>before logged.
         fst (initCommand example_world) =
           before @
           [Log Error (js ''Error occurred while initializing the git repository.''),
            LogObject Error logged]
         \<and> map_of logged (js ''output'') = Some (JString (js ''<truncated>''))
         \<and> map_of logged (js ''stderr'') = Some (JString (js ''<truncated>''))
         \<and> map_of logged (js ''stdout'') = Some (JString (js ''<truncated>''))
         \<and> map_of logged (js ''status'') = Some (JNumber 128)
         \<and> map fst logged = map fst example_error"
    by (rule exI[of _ before], rule exI[of _ logged], intro conjI)
      (rule trace out[THEN mp, OF noisy(1)] err[THEN mp, OF noisy(2)]
        std[THEN mp, OF noisy(3)] kept keys)+
  show ?thesis
    by (intro conjI)
      (rule ran before_git returned results tried noisy logged truncated logged_last)+
qed

lemma package_question_default:
  assumes "Input (js ''Go Package Name:'') dflt answer \<in> set (fst (initCommand w))"
  shows "\<exists>name.
      input_prompt (circuitName_default (directoryName w)) circuitName_validate
        (circuitName_entries w) = Some name
      \<and> Input (js ''Circuit Name:'') (circuitName_default (directoryName w)) (Some name)
          \<in> set (fst (initCommand w))
      \<and> circuitType_choice w = Gnark
      \<and> dflt = packageName_default name
      \<and> answer = input_prompt (packageName_default name) packageName_validate
          (packageName_entries w)"
proof -
  let ?asked = "Input (js ''Go Package Name:'') dflt answer"
  have handle: "t = Gnark \<and> dflt = packageName_default n
      \<and> answer = input_prompt (packageName_default n) packageName_validate (packageName_entries w)"
    if "?asked \<in> set (fst (handle_circuit_type w n t))" for n t
    using that no_input_in_perform
    by (auto simp: handle_circuit_type_def emit_def Let_def split: if_splits option.splits)
  have guard: "?asked \<in> set (fst (collect_common_fields w))
      \<and> set (fst (collect_common_fields w)) \<subseteq> set (fst (initCommand w))"
    using assms
    by (auto simp: initCommand_def check_directory_empty_def emit_def Let_def
        split: fs_node.splits if_splits)
  then obtain n where n: "input_prompt (circuitName_default (directoryName w)) circuitName_validate
        (circuitName_entries w) = Some n"
    and in_handle: "?asked \<in> set (fst (handle_circuit_type w n (circuitType_choice w)))"
    using name_question_not_package
    by (auto simp: collect_common_fields_def emit_def Let_def split: option.splits)
  have "Input (js ''Circuit Name:'') (circuitName_default (directoryName w)) (Some n)
      \<in> set (fst (collect_common_fields w))"
    by (simp add: collect_common_fields_def n emit_def Let_def)
  with guard have "Input (js ''Circuit Name:'') (circuitName_default (directoryName w)) (Some n)
      \<in> set (fst (initCommand w))"
    by blast
  with n handle[OF in_handle] show ?thesis by blast
qed

text \<open>
  C10. The default offered for the package identifier is not always valid. The default
  that the package prompt of a run shows is the derivation applied to the circuit name
  the name prompt returned. For every name without a lowercase letter the derivation gives
  the empty string, which the validator of the package identifier rejects; \<open>123\<close> and
  \<open>---\<close> are such names and pass the validator of the project name. In the sample run
  with the name \<open>123\<close> the package prompt shows the empty default, and a user who submits
  it is asked again.
\<close>

theorem packageName_default_can_be_invalid:
  "circuitName_validate (js ''123'') = Valid
   \<and> list_all (\<lambda>c. \<not> is_lower c) (js ''123'')
   \<and> packageName_default (js ''123'') = []
   \<and> circuitName_validate (js ''---'') = Valid
   \<and> list_all (\<lambda>c. \<not> is_lower c) (js ''---'')
   \<and> packageName_default (js ''---'') = []
   \<and> packageName_validate [] = Invalid (js ''You must specify a package name.'')
   \<and> input_prompt (packageName_default (js ''123'')) packageName_validate [[]] = None
   \<and> (list_all (\<lambda>c. \<not> is_lower c) name \<longrightarrow>
        packageName_default name = []
        \<and> packageName_validate (packageName_default name) =
            Invalid (js ''You must specify a package name.''))
   \<and> (Input (js ''Go Package Name:'') dflt answer \<in> set (fst (initCommand w)) \<longrightarrow>
        (\<exists>circuitName.
           input_prompt (circuitName_default (directoryName w)) circuitName_validate
             (circuitName_entries w) = Some circuitName
           \<and> Input (js ''Circuit Name:'') (circuitName_default (directoryName w))
               (Some circuitName) \<in> set (fst (initCommand w))
           \<and> dflt = packageName_default circuitName
           \<and> answer = input_prompt (packageName_default circuitName) packageName_validate
               (packageName_entries w)))
   \<and> initCommand
        (example_world\<lparr>circuitName_entries := [js ''123''], packageName_entries := [[]]\<rparr>) =
      ([Confirm (overwrite_message (js ''/work/my circuit'')) False True,
        Input (js ''Circuit Name:'') (js ''my-circuit'') (Some (js ''123'')),
        Select (js ''Proving Framework:'') (js ''gnark'') circuitType_choices (js ''gnark''),
        Input (js ''Go Package Name:'') [] None],
       AwaitingInput)"
proof -
  have names: "circuitName_validate (js ''123'') = Valid" "circuitName_validate (js ''---'') = Valid"
    by (simp_all add: circuitName_validate_def test_circuitName_pattern js_def char_defs)
  have lower: "list_all (\<lambda>c. \<not> is_lower c) (js ''123'')" "list_all (\<lambda>c. \<not> is_lower c) (js ''---'')"
    by (simp_all add: js_def char_defs)
  have rejected: "packageName_validate [] = Invalid (js ''You must specify a package name.'')"
    by (simp add: packageName_validate_def)
  have empty: "packageName_default n = []" if "list_all (\<lambda>c. \<not> is_lower c) n" for n
  proof -
    from that have "list_all (\<lambda>c. \<not> is_lower c) (filter is_alphanumeric n)"
      by (simp add: list_all_iff)
    then show ?thesis
      by (simp add: packageName_default_filter dropWhile_eq_Nil_conv list_all_iff)
  qed
  have general: "list_all (\<lambda>c. \<not> is_lower c) name \<longrightarrow>
        packageName_default name = []
        \<and> packageName_validate (packageName_default name) =
            Invalid (js ''You must specify a package name.'')"
    using empty[of name] rejected by simp
  have again: "input_prompt (packageName_default (js ''123'')) packageName_validate [[]] = None"
    by (simp add: empty[OF lower(1)] rejected)
  have offered: "Input (js ''Go Package Name:'') dflt answer \<in> set (fst (initCommand w)) \<longrightarrow>
        (\<exists>circuitName.
           input_prompt (circuitName_default (directoryName w)) circuitName_validate
             (circuitName_entries w) = Some circuitName
           \<and> Input (js ''Circuit Name:'') (circuitName_default (directoryName w))
               (Some circuitName) \<in> set (fst (initCommand w))
           \<and> dflt = packageName_default circuitName
           \<and> answer = input_prompt (packageName_default circuitName) packageName_validate
               (packageName_entries w))"
    using package_question_default[of dflt answer w] by blast
  have sample: "initCommand
        (example_world\<lparr>circuitName_entries := [js ''123''], packageName_entries := [[]]\<rparr>) =
      ([Confirm (overwrite_message (js ''/work/my circuit'')) False True,
        Input (js ''Circuit Name:'') (js ''my-circuit'') (Some (js ''123'')),
        Select (js ''Proving Framework:'') (js ''gnark'') circuitType_choices (js ''gnark''),
        Input (js ''Go Package Name:'') [] None],
       AwaitingInput)"
    by (simp add: example_world_def run_defs string_defs js_def)
  show ?thesis
    by (intro conjI)
      (rule names lower empty[OF lower(1)] empty[OF lower(2)] rejected again general offered
        sample)+
qed

theorem packageName_default_can_be_invalid_witness:
  "list_all (\<lambda>c. \<not> is_lower c) (js ''---'')
   \<and> packageName_default (js ''---'') = []
   \<and> packageName_validate (packageName_default (js ''---'')) =
        Invalid (js ''You must specify a package name.'')
   \<and> Input (js ''Go Package Name:'') [] None
        \<in> set (fst (initCommand
             (example_world\<lparr>circuitName_entries := [js ''123''], packageName_entries := [[]]\<rparr>)))
   \<and> input_prompt
        (circuitName_default (directoryName
           (example_world\<lparr>circuitName_entries := [js ''123''], packageName_entries := [[]]\<rparr>)))
        circuitName_validate
        (circuitName_entries
           (example_world\<lparr>circuitName_entries := [js ''123''], packageName_entries := [[]]\<rparr>)) =
      Some (js ''123'')
   \<and> [] = packageName_default (js ''123'')
   \<and> None = input_prompt (packageName_default (js ''123'')) packageName_validate
        (packageName_entries
           (example_world\<lparr>circuitName_entries := [js ''123''], packageName_entries := [[]]\<rparr>))"
proof -
  let ?w = "example_world\<lparr>circuitName_entries := [js ''123''], packageName_entries := [[]]\<rparr>"
  have lower: "list_all (\<lambda>c. \<not> is_lower c) (js ''---'')"
    by (simp add: js_def char_defs)
  have shown: "Input (js ''Go Package Name:'') [] None \<in> set (fst (initCommand ?w))"
    by (simp add: example_world_def run_defs string_defs js_def)
  have name: "input_prompt (circuitName_default (directoryName ?w)) circuitName_validate
      (circuitName_entries ?w) = Some (js ''123'')"
    by (simp add: example_world_def string_defs js_def)
  note invalid =
    packageName_default_can_be_invalid[where ?name = "js ''---''" and ?dflt = "[]"
      and ?answer = None and ?w = ?w]
  note general =
    invalid[THEN conjunct2, THEN conjunct2, THEN conjunct2, THEN conjunct2, THEN conjunct2,
      THEN conjunct2, THEN conjunct2, THEN conjunct2, THEN conjunct1, THEN mp, OF lower]
  note offered =
    invalid[THEN conjunct2, THEN conjunct2, THEN conjunct2, THEN conjunct2, THEN conjunct2,
      THEN conjunct2, THEN conjunct2, THEN conjunct2, THEN conjunct2, THEN conjunct1, THEN mp,
      OF shown]
  from offered obtain n
    where n: "input_prompt (circuitName_default (directoryName ?w)) circuitName_validate
        (circuitName_entries ?w) = Some n"
      and dflt: "[] = packageName_default n"
      and answer: "None = input_prompt (packageName_default n) packageName_validate
          (packageName_entries ?w)"
    by (elim exE conjE)
  have n_is: "n = js ''123''"
    using n name by simp
  show ?thesis
    by (intro conjI)
      (rule lower general[THEN conjunct1] general[THEN conjunct2] shown name
        dflt[unfolded n_is] answer[unfolded n_is])+
qed

end
